theory Spec2Isabelle
  imports Main "HOL-Library.Word"
begin

unbundle bit_operations_syntax

section \<open>Machine words, observable events and the hardware interface\<close>

type_synonym u8 = "8 word"
type_synonym u16 = "16 word"
type_synonym u32 = "32 word"
type_synonym u64 = "64 word"

text \<open>A run of bytes reached through a C pointer: offset from the pointer to byte.\<close>

type_synonym bytes = "nat \<Rightarrow> u8"

text \<open>\<^verbatim>\<open>rtl_desc_t\<close>: one 16-byte descriptor of a ring.\<close>

record rtl_desc =
  status :: u32
  vlan_tag :: u32
  buf_addr_lo :: u32
  buf_addr_hi :: u32

text \<open>
  The memory shared with the network controller: the two rings of descriptors (at
  \<^verbatim>\<open>0x50200000\<close> and \<^verbatim>\<open>0x50201000\<close>) and the data buffer of every slot (from
  \<^verbatim>\<open>0x50300000\<close> and \<^verbatim>\<open>0x50400000\<close>, 2048 bytes apart), indexed by slot as the C arrays are.
\<close>

record dma_mem =
  tx_desc :: "u32 \<Rightarrow> rtl_desc"
  rx_desc :: "u32 \<Rightarrow> rtl_desc"
  tx_buf :: "u32 \<Rightarrow> bytes"
  rx_buf :: "u32 \<Rightarrow> bytes"

datatype cache_obj = TxDesc u32 | TxBuf u32 | RxDesc u32 | RxBuf u32

text \<open>
  What the processor does that the hardware can observe, in program order: register
  accesses, barriers (\<^verbatim>\<open>DSB_SY\<close>), busy-wait delays in microseconds (\<^verbatim>\<open>udelay\<close>) and
  cache maintenance on a descriptor or a buffer.
\<close>

datatype event =
    Write32 u64 u32
  | Read32 u64 u32
  | Write8 u64 u8
  | Dsb
  | Delay u32
  | Clean cache_obj
  | Invalidate cache_obj

text \<open>
  The hardware is a parameter of every operation: a state of type \<open>'d\<close> and its reaction
  to a register read, a register write, the passing of time, and a point where the
  processor drops its cached copy of the shared memory and sees what the device has
  written there by DMA.
\<close>

record 'd hw =
  hw_read32 :: "u64 \<Rightarrow> 'd \<Rightarrow> u32 \<times> 'd"
  hw_write32 :: "u64 \<Rightarrow> u32 \<Rightarrow> 'd \<Rightarrow> 'd"
  hw_write8 :: "u64 \<Rightarrow> u8 \<Rightarrow> 'd \<Rightarrow> 'd"
  hw_delay :: "u32 \<Rightarrow> 'd \<Rightarrow> 'd"
  hw_dma :: "dma_mem \<Rightarrow> 'd \<Rightarrow> dma_mem \<times> 'd"

record 'd machine =
  dev :: 'd
  trace :: "event list"

text \<open>
  Modelled from the spec: \<^verbatim>\<open>read32\<close>, \<^verbatim>\<open>write32\<close> and \<^verbatim>\<open>write8\<close> (declared in
  \<^verbatim>\<open>mem/t_mmio.h\<close>) and the barrier \<^verbatim>\<open>DSB_SY\<close> are not among the sources. Following
  section 4.1 of the specification, each access is one raw read or write of the register
  at the address, in program order, and the barrier orders the accesses around it without
  changing any state. A store through a \<^verbatim>\<open>volatile\<close> pointer, as in
  \<^verbatim>\<open>dw_pcie_setup_atu\<close>, is the same access as \<^verbatim>\<open>write32\<close>.
\<close>

definition write32 :: "'d hw \<Rightarrow> u32 \<Rightarrow> u64 \<Rightarrow> ('d, 'z) machine_scheme \<Rightarrow> ('d, 'z) machine_scheme" where
  "write32 h v a m = m\<lparr>dev := hw_write32 h a v (dev m), trace := trace m @ [Write32 a v]\<rparr>"

definition read32 :: "'d hw \<Rightarrow> u64 \<Rightarrow> ('d, 'z) machine_scheme \<Rightarrow> u32 \<times> ('d, 'z) machine_scheme" where
  "read32 h a m =
     (let (v, d) = hw_read32 h a (dev m)
      in (v, m\<lparr>dev := d, trace := trace m @ [Read32 a v]\<rparr>))"

definition write8 :: "'d hw \<Rightarrow> u8 \<Rightarrow> u64 \<Rightarrow> ('d, 'z) machine_scheme \<Rightarrow> ('d, 'z) machine_scheme" where
  "write8 h v a m = m\<lparr>dev := hw_write8 h a v (dev m), trace := trace m @ [Write8 a v]\<rparr>"

definition DSB_SY :: "('d, 'z) machine_scheme \<Rightarrow> ('d, 'z) machine_scheme" where
  "DSB_SY m = m\<lparr>trace := trace m @ [Dsb]\<rparr>"

text \<open>\<^verbatim>\<open>udelay(us)\<close> spins on a counter; the model records the time asked for.\<close>

definition udelay :: "'d hw \<Rightarrow> u32 \<Rightarrow> ('d, 'z) machine_scheme \<Rightarrow> ('d, 'z) machine_scheme" where
  "udelay h us m = m\<lparr>dev := hw_delay h us (dev m), trace := trace m @ [Delay us]\<rparr>"

section \<open>Address translation unit\<close>

abbreviation (input) ATU_UNROLL_BASE_OFFSET :: u64 where "ATU_UNROLL_BASE_OFFSET \<equiv> 0x300000"
abbreviation (input) ATU_REGION_SIZE :: u32 where "ATU_REGION_SIZE \<equiv> 0x200"
abbreviation (input) ATU_REGION_CTRL1 :: u64 where "ATU_REGION_CTRL1 \<equiv> 0x00"
abbreviation (input) ATU_REGION_CTRL2 :: u64 where "ATU_REGION_CTRL2 \<equiv> 0x04"
abbreviation (input) ATU_LOWER_BASE :: u64 where "ATU_LOWER_BASE \<equiv> 0x08"
abbreviation (input) ATU_UPPER_BASE :: u64 where "ATU_UPPER_BASE \<equiv> 0x0C"
abbreviation (input) ATU_LOWER_LIMIT :: u64 where "ATU_LOWER_LIMIT \<equiv> 0x10"
abbreviation (input) ATU_UPPER_LIMIT :: u64 where "ATU_UPPER_LIMIT \<equiv> 0x14"
abbreviation (input) ATU_LOWER_TARGET :: u64 where "ATU_LOWER_TARGET \<equiv> 0x18"
abbreviation (input) ATU_UPPER_TARGET :: u64 where "ATU_UPPER_TARGET \<equiv> 0x1C"
abbreviation (input) PCIE_ATU_REGION_INDEX1 :: u32 where "PCIE_ATU_REGION_INDEX1 \<equiv> 1"
abbreviation (input) PCIE_ATU_TYPE_MEM :: u32 where "PCIE_ATU_TYPE_MEM \<equiv> 0x0"
abbreviation (input) PCIE_ATU_TYPE_CFG0 :: u32 where "PCIE_ATU_TYPE_CFG0 \<equiv> 0x4"
abbreviation (input) PCIE_ATU_ENABLE :: u32 where "PCIE_ATU_ENABLE \<equiv> 0x80000000"

text \<open>
  The region's register block. \<^verbatim>\<open>region_index * ATU_REGION_SIZE\<close> is a product of
  32-bit unsigned values, widened to 64 bits only for the sum.
\<close>

definition region_base :: "u64 \<Rightarrow> u32 \<Rightarrow> u64" where
  "region_base dbi_base region_index =
     (dbi_base + ATU_UNROLL_BASE_OFFSET) + ucast (region_index * ATU_REGION_SIZE)"

text \<open>
  The loop \<^verbatim>\<open>while (retries--)\<close> at the end of \<^verbatim>\<open>dw_pcie_setup_atu\<close>: the argument is
  the value of \<^verbatim>\<open>retries\<close> before the test.
\<close>

fun atu_wait_enable ::
  "'d hw \<Rightarrow> u64 \<Rightarrow> nat \<Rightarrow> ('d, 'z) machine_scheme \<Rightarrow> int \<times> ('d, 'z) machine_scheme" where
  "atu_wait_enable h reg_ctrl2 0 m = (- 1, m)"
| "atu_wait_enable h reg_ctrl2 (Suc retries) m =
     (let m1 = DSB_SY m;
          (val, m2) = read32 h reg_ctrl2 m1;
          m3 = DSB_SY m2
      in if val AND PCIE_ATU_ENABLE \<noteq> 0 then (0, m3)
         else atu_wait_enable h reg_ctrl2 retries (udelay h 1000 m3))"

definition dw_pcie_setup_atu ::
  "'d hw \<Rightarrow> u64 \<Rightarrow> u32 \<Rightarrow> u32 \<Rightarrow> u64 \<Rightarrow> u64 \<Rightarrow> u64 \<Rightarrow> ('d, 'z) machine_scheme
     \<Rightarrow> int \<times> ('d, 'z) machine_scheme" where
  "dw_pcie_setup_atu h dbi_base region_index atu_type cpu_addr pci_addr sz m =
     (let rb = region_base dbi_base region_index;
          lower_base = (ucast (cpu_addr AND 0xFFFFFFFF) :: u32);
          upper_base = (ucast (drop_bit 32 cpu_addr) :: u32);
          m = DSB_SY (write32 h lower_base (rb + ATU_LOWER_BASE) m);
          m = DSB_SY (write32 h upper_base (rb + ATU_UPPER_BASE) m);
          limit_addr = cpu_addr + sz - 1;
          lower_limit = (ucast (limit_addr AND 0xFFFFFFFF) :: u32);
          upper_limit = (ucast (drop_bit 32 limit_addr) :: u32);
          m = DSB_SY (write32 h lower_limit (rb + ATU_LOWER_LIMIT) m);
          m = DSB_SY (write32 h upper_limit (rb + ATU_UPPER_LIMIT) m);
          lower_target = (ucast (pci_addr AND 0xFFFFFFFF) :: u32);
          upper_target = (ucast (drop_bit 32 pci_addr) :: u32);
          m = DSB_SY (write32 h lower_target (rb + ATU_LOWER_TARGET) m);
          m = DSB_SY (write32 h upper_target (rb + ATU_UPPER_TARGET) m);
          m = DSB_SY (write32 h atu_type (rb + ATU_REGION_CTRL1) m);
          m = DSB_SY (write32 h PCIE_ATU_ENABLE (rb + ATU_REGION_CTRL2) m)
      in atu_wait_enable h (rb + ATU_REGION_CTRL2) 5 m)"

section \<open>Configuration-space accessor\<close>

definition pcie_config_read32 ::
  "'d hw \<Rightarrow> u64 \<Rightarrow> u64 \<Rightarrow> u64 \<Rightarrow> u32 \<Rightarrow> bool \<Rightarrow> ('d, 'z) machine_scheme
     \<Rightarrow> u32 \<times> ('d, 'z) machine_scheme" where
  "pcie_config_read32 h dbi_base cfg_base bar_phys offset restore_memory m =
     (let (ret, m1) = dw_pcie_setup_atu h dbi_base PCIE_ATU_REGION_INDEX1 PCIE_ATU_TYPE_CFG0
                        0xf3000000 0x00000000 0x100000 m
      in if ret \<noteq> 0 then (0xFFFFFFFF, m1)
         else
           let (val, m2) = read32 h (cfg_base + ucast offset) m1
           in if restore_memory \<and> bar_phys \<noteq> 0
              then let (ret2, m3) = dw_pcie_setup_atu h dbi_base PCIE_ATU_REGION_INDEX1
                                      PCIE_ATU_TYPE_MEM 0x9c0100000 bar_phys 0x10000 m2
                   in (val, m3)
              else (val, m2))"

text \<open>\<^verbatim>\<open>pcie_config_write32\<close> returns \<^verbatim>\<open>void\<close>: the caller gets the machine back, no result.\<close>

definition pcie_config_write32 ::
  "'d hw \<Rightarrow> u64 \<Rightarrow> u64 \<Rightarrow> u64 \<Rightarrow> u32 \<Rightarrow> u32 \<Rightarrow> bool \<Rightarrow> ('d, 'z) machine_scheme
     \<Rightarrow> ('d, 'z) machine_scheme" where
  "pcie_config_write32 h dbi_base cfg_base bar_phys offset val restore_memory m =
     (let (ret, m1) = dw_pcie_setup_atu h dbi_base PCIE_ATU_REGION_INDEX1 PCIE_ATU_TYPE_CFG0
                        0xf3000000 0x00000000 0x100000 m
      in if ret \<noteq> 0 then m1
         else
           let m2 = write32 h val (cfg_base + ucast offset) m1
           in if restore_memory \<and> bar_phys \<noteq> 0
              then snd (dw_pcie_setup_atu h dbi_base PCIE_ATU_REGION_INDEX1
                          PCIE_ATU_TYPE_MEM 0x9c0100000 bar_phys 0x10000 m2)
              else m2)"

section \<open>Enumeration and BAR sizing\<close>

abbreviation (input) PCIE_CFG_COMMAND :: u32 where "PCIE_CFG_COMMAND \<equiv> 0x04"
abbreviation (input) PCIE_CMD_IO_ENABLE :: u16 where "PCIE_CMD_IO_ENABLE \<equiv> 0x1"
abbreviation (input) PCIE_CMD_MEM_ENABLE :: u16 where "PCIE_CMD_MEM_ENABLE \<equiv> 0x2"
abbreviation (input) PCIE_CMD_BUS_MASTER :: u16 where "PCIE_CMD_BUS_MASTER \<equiv> 0x4"
abbreviation (input) PCIE_CMD_INT_DISABLE :: u16 where "PCIE_CMD_INT_DISABLE \<equiv> 0x400"

text \<open>
  The word \<^verbatim>\<open>pcie_enable_device\<close> writes back, from the word it read: the command and
  status halves are split into 16-bit variables, the command half is edited, and the two
  are joined again by \<^verbatim>\<open>(status_val << 16) | cmd_val\<close> (a 32-bit shift).
\<close>

definition enable_cmd_reg :: "u32 \<Rightarrow> u32" where
  "enable_cmd_reg cmd_reg =
     (let cmd_val = (ucast (cmd_reg AND 0xFFFF) :: u16);
          status_val = (ucast (drop_bit 16 cmd_reg AND 0xFFFF) :: u16);
          cmd_val = cmd_val OR PCIE_CMD_MEM_ENABLE;
          cmd_val = cmd_val OR PCIE_CMD_BUS_MASTER;
          cmd_val = cmd_val OR PCIE_CMD_IO_ENABLE;
          cmd_val = cmd_val AND NOT PCIE_CMD_INT_DISABLE
      in push_bit 16 (ucast status_val :: u32) OR ucast cmd_val)"

definition pcie_enable_device ::
  "'d hw \<Rightarrow> u64 \<Rightarrow> u64 \<Rightarrow> u64 \<Rightarrow> ('d, 'z) machine_scheme \<Rightarrow> int \<times> ('d, 'z) machine_scheme" where
  "pcie_enable_device h dbi_base cfg_base bar_phys m =
     (let (cmd_reg, m1) = pcie_config_read32 h dbi_base cfg_base bar_phys PCIE_CFG_COMMAND False m;
          m2 = pcie_config_write32 h dbi_base cfg_base bar_phys PCIE_CFG_COMMAND
                 (enable_cmd_reg cmd_reg) False m1;
          (cmd_reg2, m3) = pcie_config_read32 h dbi_base cfg_base bar_phys PCIE_CFG_COMMAND True m2;
          cmd_val = (ucast (cmd_reg2 AND 0xFFFF) :: u16)
      in if cmd_val AND PCIE_CMD_MEM_ENABLE = 0 then (- 1, m3) else (0, m3))"

text \<open>
  \<^verbatim>\<open>pcie_get_bar_info\<close>: the two output parameters are returned after the result code.
  \<^verbatim>\<open>(~size_mask) + 1\<close> is computed in 32 bits and then widened.
\<close>

definition pcie_get_bar_info ::
  "'d hw \<Rightarrow> u64 \<Rightarrow> u64 \<Rightarrow> u32 \<Rightarrow> ('d, 'z) machine_scheme
     \<Rightarrow> int \<times> u64 \<times> u64 \<times> ('d, 'z) machine_scheme" where
  "pcie_get_bar_info h dbi_base cfg_base bar_num m =
     (let bar_offset = 0x10 + bar_num * 4;
          (bar_orig, m1) = pcie_config_read32 h dbi_base cfg_base 0 bar_offset False m;
          m2 = pcie_config_write32 h dbi_base cfg_base 0 bar_offset 0xFFFFFFFF False m1;
          (bar_val, m3) = pcie_config_read32 h dbi_base cfg_base 0 bar_offset False m2;
          m4 = pcie_config_write32 h dbi_base cfg_base 0 bar_offset bar_orig False m3
      in if bar_val AND 0x1 \<noteq> 0
         then
           let size_mask = bar_val AND 0xFFFFFFFC;
               bar_size = (ucast (NOT size_mask + 1) :: u64);
               bar_addr = (ucast (bar_orig AND 0xFFFFFFFC) :: u64)
           in (0, bar_addr, bar_size, m4)
         else
           let size_mask = bar_val AND 0xFFFFFFF0;
               bar_size = (ucast (NOT size_mask + 1) :: u64);
               bar_addr = (ucast (bar_orig AND 0xFFFFFFF0) :: u64)
           in if bar_orig AND 0x6 = 0x4
              then
                let (bar_upper, m5) =
                      pcie_config_read32 h dbi_base cfg_base 0 (bar_offset + 4) False m4
                in (0, bar_addr OR push_bit 32 (ucast bar_upper), bar_size, m5)
              else (0, bar_addr, bar_size, m4))"

section \<open>Descriptor ring driver\<close>

abbreviation (input) RTL8125_TxPoll :: u32 where "RTL8125_TxPoll \<equiv> 0x0090"
abbreviation (input) DESC_OWN :: u32 where "DESC_OWN \<equiv> 0x80000000"
abbreviation (input) DESC_EOR :: u32 where "DESC_EOR \<equiv> 0x40000000"
abbreviation (input) DESC_FS :: u32 where "DESC_FS \<equiv> 0x20000000"
abbreviation (input) DESC_LS :: u32 where "DESC_LS \<equiv> 0x10000000"
abbreviation (input) NUM_TX_DESC :: u32 where "NUM_TX_DESC \<equiv> 4"
abbreviation (input) NUM_RX_DESC :: u32 where "NUM_RX_DESC \<equiv> 4"
abbreviation (input) RX_BUF_SIZE :: u32 where "RX_BUF_SIZE \<equiv> 2048"
abbreviation (input) TX_BUF_SIZE :: u32 where "TX_BUF_SIZE \<equiv> 2048"

text \<open>
  The driver's static variables, on top of the machine. The four pointers are kept as
  addresses (0 is \<^verbatim>\<open>NULL\<close>); only \<^verbatim>\<open>rtl8125_init\<close> assigns them, to the ring and to the
  buffer of the same slot, so what they point to is the shared memory \<open>mem\<close>.
\<close>

record 'd rtl8125 = "'d machine" +
  rtl_mmio_base :: u64
  tx_ring :: u64
  rx_ring :: u64
  tx_buffers :: "u32 \<Rightarrow> u64"
  rx_buffers :: "u32 \<Rightarrow> u64"
  tx_idx :: u32
  rx_idx :: u32
  mem :: dma_mem

definition rtl_write8 :: "'d hw \<Rightarrow> u32 \<Rightarrow> u8 \<Rightarrow> 'd rtl8125 \<Rightarrow> 'd rtl8125" where
  "rtl_write8 h reg val s = write8 h val (rtl_mmio_base s + ucast reg) s"

text \<open>
  Modelled from the spec: \<^verbatim>\<open>clean_dcache_va_range\<close>, \<^verbatim>\<open>invalidate_dcache_va_range\<close>
  (declared in \<^verbatim>\<open>mem/cache.h\<close>) and \<^verbatim>\<open>g_cache_line_size\<close> are not among the sources.
  Following section 4.5 of the specification, a clean makes the processor's writes
  visible to the device and an invalidate discards the processor's cached copy, so that
  the next read sees what the device has written by DMA. The address ranges (aligned to
  the cache line) are not modelled: the object concerned is recorded, and an invalidate
  is the point where the device's writes reach the processor's view of the shared memory.
\<close>

definition clean_dcache_va_range :: "cache_obj \<Rightarrow> 'd rtl8125 \<Rightarrow> 'd rtl8125" where
  "clean_dcache_va_range obj s = s\<lparr>trace := trace s @ [Clean obj]\<rparr>"

definition invalidate_dcache_va_range :: "'d hw \<Rightarrow> cache_obj \<Rightarrow> 'd rtl8125 \<Rightarrow> 'd rtl8125" where
  "invalidate_dcache_va_range h obj s =
     (let (mem', d) = hw_dma h (mem s) (dev s)
      in s\<lparr>dev := d, trace := trace s @ [Invalidate obj], mem := mem'\<rparr>)"

text \<open>
  \<^verbatim>\<open>memcpy_local\<close> and \<^verbatim>\<open>memset_local\<close>: the loop \<^verbatim>\<open>while (n--)\<close>, with the two moving
  pointers as offsets \<open>d\<close> and \<open>s\<close> into the destination and the source.
\<close>

fun memcpy_local :: "bytes \<Rightarrow> nat \<Rightarrow> bytes \<Rightarrow> nat \<Rightarrow> nat \<Rightarrow> bytes" where
  "memcpy_local dst d src s 0 = dst"
| "memcpy_local dst d src s (Suc n) = memcpy_local (dst(d := src s)) (Suc d) src (Suc s) n"

fun memset_local :: "bytes \<Rightarrow> nat \<Rightarrow> u8 \<Rightarrow> nat \<Rightarrow> bytes" where
  "memset_local dst d val 0 = dst"
| "memset_local dst d val (Suc n) = memset_local (dst(d := val)) (Suc d) val n"

definition set_tx_buf :: "u32 \<Rightarrow> bytes \<Rightarrow> 'd rtl8125 \<Rightarrow> 'd rtl8125" where
  "set_tx_buf i b s = s\<lparr>mem := (mem s)\<lparr>tx_buf := (tx_buf (mem s))(i := b)\<rparr>\<rparr>"

definition set_tx_desc :: "u32 \<Rightarrow> rtl_desc \<Rightarrow> 'd rtl8125 \<Rightarrow> 'd rtl8125" where
  "set_tx_desc i x s = s\<lparr>mem := (mem s)\<lparr>tx_desc := (tx_desc (mem s))(i := x)\<rparr>\<rparr>"

definition set_rx_desc :: "u32 \<Rightarrow> rtl_desc \<Rightarrow> 'd rtl8125 \<Rightarrow> 'd rtl8125" where
  "set_rx_desc i x s = s\<lparr>mem := (mem s)\<lparr>rx_desc := (rx_desc (mem s))(i := x)\<rparr>\<rparr>"

text \<open>The loop \<^verbatim>\<open>while (timeout--)\<close> of \<^verbatim>\<open>rtl8125_send_packet\<close>.\<close>

fun tx_wait :: "'d hw \<Rightarrow> nat \<Rightarrow> 'd rtl8125 \<Rightarrow> 'd rtl8125" where
  "tx_wait h 0 s = s"
| "tx_wait h (Suc timeout) s =
     (let s1 = invalidate_dcache_va_range h (TxDesc (tx_idx s)) s
      in if status (tx_desc (mem s1) (tx_idx s1)) AND DESC_OWN = 0 then s1
         else tx_wait h timeout (udelay h 10 s1))"

text \<open>
  The part of \<^verbatim>\<open>rtl8125_send_packet\<close> from the copy of the payload to the write of the
  transmit-poll register.
\<close>

definition tx_submit :: "'d hw \<Rightarrow> bytes \<Rightarrow> u32 \<Rightarrow> 'd rtl8125 \<Rightarrow> 'd rtl8125" where
  "tx_submit h data len s =
     (let i = tx_idx s;
          s = set_tx_buf i (memcpy_local (tx_buf (mem s) i) 0 data 0 (unat len)) s;
          pad_len = len;
          (s, pad_len) =
            (if pad_len < 60
             then (set_tx_buf i (memset_local (tx_buf (mem s) i) (unat len) 0 (unat (60 - len))) s, 60)
             else (s, pad_len));
          s = clean_dcache_va_range (TxBuf i) s;
          s = set_tx_desc i ((tx_desc (mem s) i)\<lparr>status := DESC_OWN OR DESC_FS OR DESC_LS OR pad_len\<rparr>) s;
          s = clean_dcache_va_range (TxDesc i) s
      in rtl_write8 h RTL8125_TxPoll 0x01 s)"

definition rtl8125_send_packet :: "'d hw \<Rightarrow> bytes \<Rightarrow> u32 \<Rightarrow> 'd rtl8125 \<Rightarrow> int \<times> 'd rtl8125" where
  "rtl8125_send_packet h data len s =
     (if tx_ring s = 0 \<or> tx_buffers s (tx_idx s) = 0 then (- 1, s)
      else if len > TX_BUF_SIZE then (- 1, s)
      else
        let s = tx_submit h data len s;
            s = tx_wait h 10000 s
        in if status (tx_desc (mem s) (tx_idx s)) AND DESC_OWN \<noteq> 0 then (- 1, s)
           else (0, s\<lparr>tx_idx := (tx_idx s + 1) mod NUM_TX_DESC\<rparr>))"

text \<open>The loop \<^verbatim>\<open>while (timeout--)\<close> of \<^verbatim>\<open>rtl8125_recv_packet\<close>.\<close>

fun rx_wait :: "'d hw \<Rightarrow> nat \<Rightarrow> 'd rtl8125 \<Rightarrow> 'd rtl8125" where
  "rx_wait h 0 s = s"
| "rx_wait h (Suc timeout) s =
     (let s1 = invalidate_dcache_va_range h (RxDesc (rx_idx s)) s
      in if status (rx_desc (mem s1) (rx_idx s1)) AND DESC_OWN = 0 then s1
         else rx_wait h timeout (udelay h 10 s1))"

text \<open>The code at the label \<^verbatim>\<open>reinit_desc\<close>, to the end of \<^verbatim>\<open>rtl8125_recv_packet\<close>.\<close>

definition reinit_desc :: "'d rtl8125 \<Rightarrow> 'd rtl8125" where
  "reinit_desc s =
     (let i = rx_idx s;
          st = (if i = NUM_RX_DESC - 1 then (DESC_OWN OR DESC_EOR) + RX_BUF_SIZE
                else DESC_OWN + RX_BUF_SIZE);
          s = set_rx_desc i ((rx_desc (mem s) i)\<lparr>status := st\<rparr>) s;
          s = set_rx_desc i ((rx_desc (mem s) i)\<lparr>buf_addr_lo := 0x50400000 + i * RX_BUF_SIZE\<rparr>) s;
          s = set_rx_desc i ((rx_desc (mem s) i)\<lparr>buf_addr_hi := 0\<rparr>) s;
          s = clean_dcache_va_range (RxDesc i) s
      in s\<lparr>rx_idx := (rx_idx s + 1) mod NUM_RX_DESC\<rparr>)"

text \<open>
  \<^verbatim>\<open>rtl8125_recv_packet\<close>: the caller's buffer and \<^verbatim>\<open>*len\<close> go in and come back after
  the result code. \<^verbatim>\<open>timeout_ms * 100\<close> and the subtraction of the 4 bytes are 32-bit
  unsigned operations.
\<close>

definition rtl8125_recv_packet ::
  "'d hw \<Rightarrow> bytes \<Rightarrow> u32 \<Rightarrow> u32 \<Rightarrow> 'd rtl8125 \<Rightarrow> int \<times> bytes \<times> u32 \<times> 'd rtl8125" where
  "rtl8125_recv_packet h buffer len timeout_ms s =
     (if rx_ring s = 0 \<or> rx_buffers s (rx_idx s) = 0 then (- 1, buffer, len, s)
      else
        let timeout = timeout_ms * 100;
            s = rx_wait h (unat timeout) s
        in if status (rx_desc (mem s) (rx_idx s)) AND DESC_OWN \<noteq> 0 then (- 1, buffer, len, s)
           else if status (rx_desc (mem s) (rx_idx s)) AND 0x00200000 \<noteq> 0
           then (0, buffer, len, reinit_desc s)
           else
             let pkt_len = (status (rx_desc (mem s) (rx_idx s)) AND 0x3FFF) - 4;
                 pkt_len = (if pkt_len > RX_BUF_SIZE then RX_BUF_SIZE else pkt_len);
                 s = invalidate_dcache_va_range h (RxBuf (rx_idx s)) s;
                 buffer = memcpy_local buffer 0 (rx_buf (mem s) (rx_idx s)) 0 (unat pkt_len);
                 len = pkt_len
             in (0, buffer, len, reinit_desc s))"

section \<open>Reading a trace; example hardware\<close>

text \<open>The value last written to a 32-bit register within a run of events, if any.\<close>

fun reg_written :: "event list \<Rightarrow> u64 \<Rightarrow> u32 option" where
  "reg_written [] a = None"
| "reg_written (e # es) a =
     (case reg_written es a of
        Some v \<Rightarrow> Some v
      | None \<Rightarrow> (case e of Write32 b v \<Rightarrow> if a = b then Some v else None | _ \<Rightarrow> None))"

text \<open>The 64-bit value that a pair of registers (lower half, upper half) was left with.\<close>

definition reg_pair_written :: "event list \<Rightarrow> u64 \<Rightarrow> u64 \<Rightarrow> u64 option" where
  "reg_pair_written es lo hi =
     (case (reg_written es lo, reg_written es hi) of
        (Some l, Some u) \<Rightarrow> Some (push_bit 32 (ucast u) OR ucast l)
      | _ \<Rightarrow> None)"

fun is_write :: "event \<Rightarrow> bool" where
  "is_write (Write32 a v) = True"
| "is_write (Write8 a v) = True"
| "is_write e = False"

text \<open>The values read from a 32-bit register within a run of events, in order.\<close>

fun reg_reads :: "event list \<Rightarrow> u64 \<Rightarrow> u32 list" where
  "reg_reads [] a = []"
| "reg_reads (Read32 b v # es) a = (if a = b then v # reg_reads es a else reg_reads es a)"
| "reg_reads (e # es) a = reg_reads es a"

text \<open>The time spent in \<^verbatim>\<open>udelay\<close> over a run of events, in microseconds.\<close>

fun elapsed_us :: "event list \<Rightarrow> nat" where
  "elapsed_us [] = 0"
| "elapsed_us (Delay us # es) = unat us + elapsed_us es"
| "elapsed_us (e # es) = elapsed_us es"

text \<open>
  The programming sequence in the words of the specification: lower and upper source
  base, lower and upper limit (\<open>host_addr + size - 1\<close>), lower and upper target, the
  transaction type, then the enable bit, each followed by a barrier.
\<close>

definition atu_program_events :: "u64 \<Rightarrow> u32 \<Rightarrow> u64 \<Rightarrow> u64 \<Rightarrow> u64 \<Rightarrow> event list" where
  "atu_program_events rb atu_type host_addr bus_addr sz =
     [Write32 (rb + 0x08) (ucast host_addr), Dsb,
      Write32 (rb + 0x0C) (ucast (drop_bit 32 host_addr)), Dsb,
      Write32 (rb + 0x10) (ucast (host_addr + sz - 1)), Dsb,
      Write32 (rb + 0x14) (ucast (drop_bit 32 (host_addr + sz - 1))), Dsb,
      Write32 (rb + 0x18) (ucast bus_addr), Dsb,
      Write32 (rb + 0x1C) (ucast (drop_bit 32 bus_addr)), Dsb,
      Write32 rb atu_type, Dsb,
      Write32 (rb + 0x04) 0x80000000, Dsb]"

text \<open>One poll of the enable bit that did not succeed, with the value read.\<close>

definition atu_failed_poll :: "u64 \<Rightarrow> u32 \<Rightarrow> event list" where
  "atu_failed_poll rb v = [Dsb, Read32 (rb + 0x04) v, Dsb, Delay 1000]"

text \<open>
  Hardware whose every register reads as \<open>v\<close>, which ignores writes and never touches
  the shared memory.
\<close>

definition const_hw :: "u32 \<Rightarrow> unit hw" where
  "const_hw v =
     \<lparr>hw_read32 = (\<lambda>a d. (v, d)), hw_write32 = (\<lambda>a w d. d), hw_write8 = (\<lambda>a w d. d),
      hw_delay = (\<lambda>us d. d), hw_dma = (\<lambda>mem d. (mem, d))\<rparr>"

definition machine0 :: "unit machine" where
  "machine0 = \<lparr>dev = (), trace = []\<rparr>"

text \<open>
  Hardware that is a file of 32-bit registers: a read returns what the register holds,
  a write changes the bits that \<open>wmask\<close> marks writable at that address and leaves the
  others (read-only type bits of a BAR, size bits wired to zero) as they are.
\<close>

definition regfile_hw :: "(u64 \<Rightarrow> u32) \<Rightarrow> (u64 \<Rightarrow> u32) hw" where
  "regfile_hw wmask =
     \<lparr>hw_read32 = (\<lambda>a d. (d a, d)),
      hw_write32 = (\<lambda>a v d. d(a := (v AND wmask a) OR (d a AND NOT (wmask a)))),
      hw_write8 = (\<lambda>a w d. d), hw_delay = (\<lambda>us d. d), hw_dma = (\<lambda>mem d. (mem, d))\<rparr>"

text \<open>The addresses of the eight registers of a region.\<close>

definition atu_regs :: "u64 \<Rightarrow> u64 set" where
  "atu_regs rb = {rb, rb + 0x04, rb + 0x08, rb + 0x0C, rb + 0x10, rb + 0x14, rb + 0x18, rb + 0x1C}"

text \<open>
  Hardware with one BAR register at \<open>bar\<close>, fully writable, and a control-2 register at
  \<open>ctrl2\<close> that reads back enabled for the first \<open>k\<close> times the region is enabled and
  not after. The state is the BAR's value and the number of writes to control-2.
\<close>

definition flaky_hw :: "u64 \<Rightarrow> u64 \<Rightarrow> nat \<Rightarrow> (u32 \<times> nat) hw" where
  "flaky_hw ctrl2 bar k =
     \<lparr>hw_read32 = (\<lambda>a d. (if a = ctrl2 then (if snd d \<le> k then 0x80000000 else 0)
                              else if a = bar then fst d else 0, d)),
      hw_write32 = (\<lambda>a v d. if a = ctrl2 then (fst d, Suc (snd d))
                             else if a = bar then (v, snd d) else d),
      hw_write8 = (\<lambda>a w d. d), hw_delay = (\<lambda>us d. d), hw_dma = (\<lambda>mem d. (mem, d))\<rparr>"

text \<open>
  BAR sizing in the words of the specification: size = \<open>~(readback & type-mask) + 1\<close>,
  the mask being \<open>0xFFFFFFFC\<close> for an I/O BAR (bit 0 set) and \<open>0xFFFFFFF0\<close> for a memory
  BAR; the address is the original value under the same kind of mask, with the next BAR
  as upper half for a 64-bit memory BAR.
\<close>

definition bar_type_mask :: "u32 \<Rightarrow> u32" where
  "bar_type_mask readback = (if bit readback 0 then 0xFFFFFFFC else 0xFFFFFFF0)"

definition bar_size_formula :: "u32 \<Rightarrow> u64" where
  "bar_size_formula readback = ucast (NOT (readback AND bar_type_mask readback) + 1)"

definition bar_addr_formula :: "u32 \<Rightarrow> u32 \<Rightarrow> u32 \<Rightarrow> u64" where
  "bar_addr_formula readback orig upper =
     (if \<not> bit readback 0 \<and> orig AND 0x6 = 0x4
      then ucast (orig AND bar_type_mask readback) OR push_bit 32 (ucast upper)
      else ucast (orig AND bar_type_mask readback))"

text \<open>
  The word that enabling the device writes back, in the words of the specification: the
  word read with memory-space-enable, bus-master-enable and I/O-space-enable set and
  interrupt-disable cleared.
\<close>

definition cmd_enable_word :: "u32 \<Rightarrow> u32" where
  "cmd_enable_word orig = (orig OR 7) AND NOT 0x400"

definition flaky_machine0 :: "(u32 \<times> nat) machine" where
  "flaky_machine0 = \<lparr>dev = (0xE0000000, 0), trace = []\<rparr>"

text \<open>A register file for a device whose BAR 2 is a 64 KiB 32-bit memory BAR.\<close>

definition example_wmask :: "u64 \<Rightarrow> u32" where
  "example_wmask a = (if a = 0xf3000018 then 0xFFFF0000 else 0xFFFFFFFF)"

definition example_regs :: "(u64 \<Rightarrow> u32) machine" where
  "example_regs = \<lparr>dev = (\<lambda>a. if a = 0xf3000018 then 0xE0000000 else 0), trace = []\<rparr>"

text \<open>
  A network controller that completes every transmission at once (it clears the
  ownership bit of the transmit descriptors) and has, for every receive slot, a frame
  with status word \<open>rx_status\<close> and bytes \<open>payload\<close>.
\<close>

definition nic_hw :: "u32 \<Rightarrow> bytes \<Rightarrow> unit hw" where
  "nic_hw rx_status payload =
     \<lparr>hw_read32 = (\<lambda>a d. (0, d)), hw_write32 = (\<lambda>a w d. d), hw_write8 = (\<lambda>a w d. d),
      hw_delay = (\<lambda>us d. d),
      hw_dma = (\<lambda>mem d.
        (mem\<lparr>tx_desc := (\<lambda>i. (tx_desc mem i)\<lparr>status := status (tx_desc mem i) AND 0x7FFFFFFF\<rparr>),
              rx_desc := (\<lambda>i. (rx_desc mem i)\<lparr>status := rx_status\<rparr>),
              rx_buf := (\<lambda>i. payload)\<rparr>, d))\<rparr>"

text \<open>The driver as \<^verbatim>\<open>rtl8125_init\<close> leaves it, with empty buffers.\<close>

definition nic0 :: "unit rtl8125" where
  "nic0 =
     \<lparr>dev = (), trace = [], rtl_mmio_base = 0x9c0100000,
      tx_ring = 0x50200000, rx_ring = 0x50201000,
      tx_buffers = (\<lambda>i. 0x50300000 + ucast i * 2048),
      rx_buffers = (\<lambda>i. 0x50400000 + ucast i * 2048),
      tx_idx = 0, rx_idx = 0,
      mem = \<lparr>tx_desc = (\<lambda>i. \<lparr>status = (if i = 3 then 0x40000000 else 0), vlan_tag = 0,
                               buf_addr_lo = 0x50300000 + i * 2048, buf_addr_hi = 0\<rparr>),
             rx_desc = (\<lambda>i. \<lparr>status = (if i = 3 then 0xC0000800 else 0x80000800), vlan_tag = 0,
                               buf_addr_lo = 0x50400000 + i * 2048, buf_addr_hi = 0\<rparr>),
             tx_buf = (\<lambda>i j. 0), rx_buf = (\<lambda>i j. 0)\<rparr>\<rparr>"

text \<open>
  The driver after the poll loop of \<^verbatim>\<open>rtl8125_recv_packet\<close>, and the status word of the
  current slot as the processor sees it then.
\<close>

definition rx_polled :: "'d hw \<Rightarrow> u32 \<Rightarrow> 'd rtl8125 \<Rightarrow> 'd rtl8125" where
  "rx_polled h timeout_ms s = rx_wait h (unat (timeout_ms * 100)) s"

definition rx_seen :: "'d hw \<Rightarrow> u32 \<Rightarrow> 'd rtl8125 \<Rightarrow> u32" where
  "rx_seen h timeout_ms s = status (rx_desc (mem (rx_polled h timeout_ms s)) (rx_idx s))"

section \<open>Proofs\<close>

subsection \<open>Words\<close>

lemma enable_bit_test: "(v AND (0x80000000::u32) \<noteq> 0) = bit v 31"
proof -
  have "(0x80000000::u32) = 2 ^ 31" by simp
  then show ?thesis using and_exp_eq_0_iff_not_bit[of v 31] by (simp del: power_numeral)
qed

lemma ucast_low32: "(ucast (x AND 0xFFFFFFFF :: u64) :: u32) = ucast x"
proof -
  have "(0xFFFFFFFF :: u64) = mask 32" by (simp add: mask_eq_exp_minus_1)
  then have "x AND 0xFFFFFFFF = x AND mask 32" by simp
  also have "(ucast (x AND mask 32 :: u64) :: u32) = ucast x"
    by (rule bit_word_eqI) (simp add: bit_simps)
  finally show ?thesis .
qed

lemma join_halves:
  "push_bit 32 (ucast (ucast (drop_bit 32 x) :: u32)) OR ucast (ucast x :: u32) = (x :: u64)"
  by (rule bit_word_eqI) (auto simp add: bit_simps)

subsection \<open>Window manager\<close>

lemma reg_written_append:
  "reg_written (xs @ ys) a = (case reg_written ys a of Some v \<Rightarrow> Some v | None \<Rightarrow> reg_written xs a)"
  by (induction xs) (auto split: option.splits)

lemma reg_written_no_write: "\<forall>e \<in> set es. \<not> is_write e \<Longrightarrow> reg_written es a = None"
  by (induction es) (auto split: option.splits event.splits)

lemma setup_atu_unfold:
  "dw_pcie_setup_atu h dbi idx ty host bus sz m =
     atu_wait_enable h (region_base dbi idx + 4) 5
       (m\<lparr>dev := hw_write32 h (region_base dbi idx + 4) 0x80000000
                (hw_write32 h (region_base dbi idx) ty
                (hw_write32 h (region_base dbi idx + 0x1C) (ucast (drop_bit 32 bus))
                (hw_write32 h (region_base dbi idx + 0x18) (ucast bus)
                (hw_write32 h (region_base dbi idx + 0x14) (ucast (drop_bit 32 (host + sz - 1)))
                (hw_write32 h (region_base dbi idx + 0x10) (ucast (host + sz - 1))
                (hw_write32 h (region_base dbi idx + 0x0C) (ucast (drop_bit 32 host))
                (hw_write32 h (region_base dbi idx + 0x08) (ucast host) (dev m)))))))),
          trace := trace m @ atu_program_events (region_base dbi idx) ty host bus sz\<rparr>)"
  by (simp add: dw_pcie_setup_atu_def Let_def write32_def DSB_SY_def atu_program_events_def ucast_low32)

lemma wait_enable_ok:
  "atu_wait_enable h a n m = (0, m') \<Longrightarrow>
     \<exists>polls v. trace m' = trace m @ polls @ [Read32 a v, Dsb] \<and> bit v 31 \<and>
       (\<forall>e \<in> set polls. \<not> is_write e)"
proof (induction n arbitrary: m)
  case 0 then show ?case by simp
next
  case (Suc n)
  obtain v d where rd: "hw_read32 h a (dev m) = (v, d)" by (cases "hw_read32 h a (dev m)")
  show ?case
  proof (cases "bit v 31")
    case True
    with Suc.prems rd show ?thesis
      by (auto simp add: Let_def read32_def DSB_SY_def enable_bit_test intro!: exI[of _ "[Dsb]"])
  next
    case False
    let ?m = "udelay h 1000 (DSB_SY (snd (read32 h a (DSB_SY m))))"
    from Suc.prems rd False have "atu_wait_enable h a n ?m = (0, m')"
      by (simp add: Let_def read32_def DSB_SY_def enable_bit_test)
    from Suc.IH[OF this] obtain polls w where
      "trace m' = trace ?m @ polls @ [Read32 a w, Dsb]" "bit w 31" "\<forall>e \<in> set polls. \<not> is_write e"
      by blast
    with rd show ?thesis
      by (auto simp add: read32_def DSB_SY_def udelay_def
          intro!: exI[of _ "[Dsb, Read32 a v, Dsb, Delay 1000] @ polls"] exI[of _ w])
  qed
qed

lemma wait_enable_fail:
  "(\<forall>d. \<not> bit (fst (hw_read32 h (rb + 4) d)) 31) \<Longrightarrow>
     \<exists>vs m'. atu_wait_enable h (rb + 4) n m = (- 1, m') \<and> length vs = n \<and>
       (\<forall>v \<in> set vs. \<not> bit v 31) \<and>
       trace m' = trace m @ concat (map (atu_failed_poll rb) vs)"
proof (induction n arbitrary: m)
  case 0 then show ?case by simp
next
  case (Suc n)
  obtain v d where rd: "hw_read32 h (rb + 4) (dev m) = (v, d)" by (cases "hw_read32 h (rb + 4) (dev m)")
  with Suc.prems have nb: "\<not> bit v 31" by (metis fst_conv)
  let ?m = "udelay h 1000 (DSB_SY (snd (read32 h (rb + 4) (DSB_SY m))))"
  from Suc.IH[OF Suc.prems, of ?m] obtain vs m' where
    "atu_wait_enable h (rb + 4) n ?m = (- 1, m')" "length vs = n" "\<forall>v \<in> set vs. \<not> bit v 31"
    "trace m' = trace ?m @ concat (map (atu_failed_poll rb) vs)"
    by blast
  with rd nb show ?case
    by (auto simp add: Let_def read32_def DSB_SY_def udelay_def enable_bit_test atu_failed_poll_def[abs_def]
        intro!: exI[of _ "v # vs"])
qed

lemma program_events_written:
  "reg_written (atu_program_events rb ty host bus sz) (rb + 0x08) = Some (ucast host)"
  "reg_written (atu_program_events rb ty host bus sz) (rb + 0x0C) = Some (ucast (drop_bit 32 host))"
  "reg_written (atu_program_events rb ty host bus sz) (rb + 0x10) = Some (ucast (host + sz - 1))"
  "reg_written (atu_program_events rb ty host bus sz) (rb + 0x14) = Some (ucast (drop_bit 32 (host + sz - 1)))"
  "reg_written (atu_program_events rb ty host bus sz) (rb + 0x18) = Some (ucast bus)"
  "reg_written (atu_program_events rb ty host bus sz) (rb + 0x1C) = Some (ucast (drop_bit 32 bus))"
  "reg_written (atu_program_events rb ty host bus sz) rb = Some ty"
  "reg_written (atu_program_events rb ty host bus sz) (rb + 0x04) = Some 0x80000000"
  by (simp_all add: atu_program_events_def)

lemma wait_enable_first:
  "bit (fst (hw_read32 h a (dev m))) 31 \<Longrightarrow> fst (atu_wait_enable h a (Suc n) m) = 0"
  by (auto simp add: Let_def read32_def DSB_SY_def enable_bit_test split: prod.splits)

text \<open>
  C1. After \<^verbatim>\<open>dw_pcie_setup_atu\<close> has returned success for a region, whatever the
  hardware and the 64-bit arguments: the events of the call end with a read of the
  control-2 register that gave the enable bit (bit 31) set, and the events before it left
  the lower and upper base registers with \<open>host_addr\<close>, the limit registers with
  \<open>host_addr + size - 1\<close>, the target registers with \<open>bus_addr\<close>, control-1 with the
  transaction type and control-2 with the enable bit.
\<close>

theorem setup_atu_success:
  assumes "dw_pcie_setup_atu h dbi_base region_index atu_type host_addr bus_addr sz m = (0, m')"
  shows "\<exists>evs v.
           trace m' = trace m @ evs @ [Read32 (region_base dbi_base region_index + 0x04) v, Dsb] \<and>
           bit v 31 \<and>
           reg_pair_written evs (region_base dbi_base region_index + 0x08)
             (region_base dbi_base region_index + 0x0C) = Some host_addr \<and>
           reg_pair_written evs (region_base dbi_base region_index + 0x10)
             (region_base dbi_base region_index + 0x14) = Some (host_addr + sz - 1) \<and>
           reg_pair_written evs (region_base dbi_base region_index + 0x18)
             (region_base dbi_base region_index + 0x1C) = Some bus_addr \<and>
           reg_written evs (region_base dbi_base region_index) = Some atu_type \<and>
           reg_written evs (region_base dbi_base region_index + 0x04) = Some 0x80000000"
proof -
  let ?rb = "region_base dbi_base region_index"
  let ?P = "atu_program_events ?rb atu_type host_addr bus_addr sz"
  from assms obtain polls v where
    tr: "trace m' = (trace m @ ?P) @ polls @ [Read32 (?rb + 4) v, Dsb]" and v: "bit v 31"
    and nw: "\<forall>e \<in> set polls. \<not> is_write e"
    unfolding setup_atu_unfold by (auto dest!: wait_enable_ok)
  have w: "reg_written (?P @ polls) a = reg_written ?P a" for a
    by (simp add: reg_written_append reg_written_no_write[OF nw])
  show ?thesis
    apply (rule exI[of _ "?P @ polls"], rule exI[of _ v])
    using tr v by (simp add: reg_pair_written_def w program_events_written join_halves)
qed

theorem setup_atu_success_witness:
  "\<exists>m'. dw_pcie_setup_atu (const_hw 0x80000000) 0xa40c00000 1 4 0xf3000000 0 0x100000 machine0 = (0, m') \<and>
   (\<exists>evs v.
      trace m' = trace machine0 @ evs @ [Read32 (region_base 0xa40c00000 1 + 0x04) v, Dsb] \<and>
      bit v 31 \<and>
      reg_pair_written evs (region_base 0xa40c00000 1 + 0x08) (region_base 0xa40c00000 1 + 0x0C)
        = Some 0xf3000000 \<and>
      reg_pair_written evs (region_base 0xa40c00000 1 + 0x10) (region_base 0xa40c00000 1 + 0x14)
        = Some (0xf3000000 + 0x100000 - 1) \<and>
      reg_pair_written evs (region_base 0xa40c00000 1 + 0x18) (region_base 0xa40c00000 1 + 0x1C)
        = Some 0 \<and>
      reg_written evs (region_base 0xa40c00000 1) = Some 4 \<and>
      reg_written evs (region_base 0xa40c00000 1 + 0x04) = Some 0x80000000)"
proof -
  define m' where
    "m' = snd (dw_pcie_setup_atu (const_hw 0x80000000) 0xa40c00000 1 4 0xf3000000 0 0x100000 machine0)"
  have "fst (dw_pcie_setup_atu (const_hw 0x80000000) 0xa40c00000 1 4 0xf3000000 0 0x100000 machine0) = 0"
    unfolding setup_atu_unfold
    by (rule wait_enable_first[where n = 4, simplified]) (simp add: const_hw_def)
  then have e: "dw_pcie_setup_atu (const_hw 0x80000000) 0xa40c00000 1 4 0xf3000000 0 0x100000 machine0 = (0, m')"
    unfolding m'_def by (simp add: prod_eq_iff)
  from setup_atu_success[OF e] e show ?thesis by blast
qed

text \<open>
  C2. If the control-2 register of the region never reads back with the enable bit set,
  \<^verbatim>\<open>dw_pcie_setup_atu\<close> returns the timeout error \<open>-1\<close>, and the events of the call are
  the programming sequence followed by exactly 5 polls, each a read of control-2
  followed by a delay of 1000 microseconds: there is no other register access.
\<close>

theorem setup_atu_timeout:
  assumes "\<forall>d. \<not> bit (fst (hw_read32 h (region_base dbi_base region_index + 0x04) d)) 31"
  shows "\<exists>vs m'.
           dw_pcie_setup_atu h dbi_base region_index atu_type host_addr bus_addr sz m = (- 1, m') \<and>
           length vs = 5 \<and> (\<forall>v \<in> set vs. \<not> bit v 31) \<and>
           trace m' = trace m
             @ atu_program_events (region_base dbi_base region_index) atu_type host_addr bus_addr sz
             @ concat (map (atu_failed_poll (region_base dbi_base region_index)) vs)"
proof -
  let ?rb = "region_base dbi_base region_index"
  let ?P = "atu_program_events ?rb atu_type host_addr bus_addr sz"
  obtain m0 where m0: "dw_pcie_setup_atu h dbi_base region_index atu_type host_addr bus_addr sz m =
      atu_wait_enable h (?rb + 4) 5 m0" and t0: "trace m0 = trace m @ ?P"
    unfolding setup_atu_unfold by simp
  from wait_enable_fail[OF assms, where n = 5 and m = m0] obtain vs m' where
    "atu_wait_enable h (?rb + 4) 5 m0 = (- 1, m')" "length vs = 5" "\<forall>v \<in> set vs. \<not> bit v 31"
    "trace m' = trace m0 @ concat (map (atu_failed_poll ?rb) vs)"
    by blast
  with m0 t0 show ?thesis by (intro exI[of _ vs] exI[of _ m']) simp
qed

theorem setup_atu_timeout_witness:
  "(\<forall>d. \<not> bit (fst (hw_read32 (const_hw 0) (region_base 0xa40c00000 1 + 0x04) d)) 31) \<and>
   (\<exists>vs m'.
      dw_pcie_setup_atu (const_hw 0) 0xa40c00000 1 4 0xf3000000 0 0x100000 machine0 = (- 1, m') \<and>
      length vs = 5 \<and> (\<forall>v \<in> set vs. \<not> bit v 31) \<and>
      trace m' = trace machine0
        @ atu_program_events (region_base 0xa40c00000 1) 4 0xf3000000 0 0x100000
        @ concat (map (atu_failed_poll (region_base 0xa40c00000 1)) vs))"
proof -
  have h: "\<forall>d. \<not> bit (fst (hw_read32 (const_hw 0) (region_base 0xa40c00000 1 + 0x04) d)) 31"
    by (simp add: const_hw_def)
  from setup_atu_timeout[OF h] h show ?thesis by blast
qed

subsection \<open>Configuration-space accessor\<close>

lemma wait_enable_never:
  "(\<forall>d. \<not> bit (fst (hw_read32 h a d)) 31) \<Longrightarrow> fst (atu_wait_enable h a n m) = - 1"
  by (induction n arbitrary: m)
    (auto simp add: Let_def read32_def enable_bit_test split: prod.splits, metis fst_conv)

text \<open>
  C3 (as amended). If the reprogramming of the swing region to configuration type times
  out, \<^verbatim>\<open>pcie_config_read32\<close> returns \<open>0xFFFFFFFF\<close>, and both it and
  \<^verbatim>\<open>pcie_config_write32\<close> leave the machine exactly as the failed reprogramming left
  it: no access to the configuration window is made, the write is skipped and the
  restore step is not run.
\<close>

theorem config_access_after_timeout:
  assumes "fst (dw_pcie_setup_atu h dbi_base 1 4 0xf3000000 0 0x100000 m) = - 1"
  shows "pcie_config_read32 h dbi_base cfg_base bar_phys offset restore_memory m =
           (0xFFFFFFFF, snd (dw_pcie_setup_atu h dbi_base 1 4 0xf3000000 0 0x100000 m)) \<and>
         pcie_config_write32 h dbi_base cfg_base bar_phys offset val restore_memory m =
           snd (dw_pcie_setup_atu h dbi_base 1 4 0xf3000000 0 0x100000 m)"
  using assms by (simp add: pcie_config_read32_def pcie_config_write32_def split_beta)

lemma setup_const0: "fst (dw_pcie_setup_atu (const_hw 0) dbi idx ty host bus sz m) = - 1"
  unfolding setup_atu_unfold by (rule wait_enable_never) (simp add: const_hw_def)

lemma setup_const1: "fst (dw_pcie_setup_atu (const_hw 0xFFFFFFFF) dbi idx ty host bus sz m) = 0"
proof -
  have "fst (atu_wait_enable (const_hw 0xFFFFFFFF) a (Suc 4) m') = 0" for a and m' :: "(unit, 'a) machine_scheme"
    by (rule wait_enable_first) (simp add: const_hw_def)
  then show ?thesis unfolding setup_atu_unfold by simp
qed

theorem config_access_after_timeout_witness:
  "fst (dw_pcie_setup_atu (const_hw 0) 0xa40c00000 1 4 0xf3000000 0 0x100000 machine0) = - 1 \<and>
   pcie_config_read32 (const_hw 0) 0xa40c00000 0xf3000000 0 0x10 False machine0 =
     (0xFFFFFFFF, snd (dw_pcie_setup_atu (const_hw 0) 0xa40c00000 1 4 0xf3000000 0 0x100000 machine0)) \<and>
   pcie_config_write32 (const_hw 0) 0xa40c00000 0xf3000000 0 0x10 0xFFFFFFFF False machine0 =
     snd (dw_pcie_setup_atu (const_hw 0) 0xa40c00000 1 4 0xf3000000 0 0x100000 machine0)"
proof -
  have h: "fst (dw_pcie_setup_atu (const_hw 0) 0xa40c00000 1 4 0xf3000000 0 0x100000 machine0) = - 1"
    by (rule setup_const0)
  from config_access_after_timeout[OF h] h show ?thesis by blast
qed

text \<open>
  C3, against the claim as stated: the failure does not reach the caller as a failure.
  A read through hardware on which the reprogramming times out and a read through
  hardware on which it succeeds, of a register that holds all-ones, return the same
  word; and \<^verbatim>\<open>pcie_enable_device\<close>, whose three accesses all fail on the first
  hardware, returns success.
\<close>

theorem config_failure_not_reported:
  "fst (dw_pcie_setup_atu (const_hw 0) 0xa40c00000 1 4 0xf3000000 0 0x100000 machine0) = - 1 \<and>
   fst (pcie_config_read32 (const_hw 0) 0xa40c00000 0xf3000000 0 0x04 False machine0) = 0xFFFFFFFF \<and>
   fst (dw_pcie_setup_atu (const_hw 0xFFFFFFFF) 0xa40c00000 1 4 0xf3000000 0 0x100000 machine0) = 0 \<and>
   fst (pcie_config_read32 (const_hw 0xFFFFFFFF) 0xa40c00000 0xf3000000 0 0x04 False machine0) = 0xFFFFFFFF \<and>
   fst (pcie_enable_device (const_hw 0) 0xa40c00000 0xf3000000 0 machine0) = 0"
proof -
  have r: "fst (read32 (const_hw v) a m) = v" for v a and m :: "unit machine"
    by (simp add: read32_def const_hw_def)
  show ?thesis
    by (simp add: setup_const0 setup_const1 pcie_config_read32_def pcie_config_write32_def
        pcie_enable_device_def split_beta r)
qed

subsection \<open>Enabling the device\<close>

lemma bit_const_word:
  "bit (0xFFFF :: 'a::len word) n \<longleftrightarrow> n < 16 \<and> n < LENGTH('a)"
  "bit (7 :: 'a::len word) n \<longleftrightarrow> n < 3 \<and> n < LENGTH('a)"
  "bit (0x400 :: 'a::len word) n \<longleftrightarrow> n = 10 \<and> n < LENGTH('a)"
  "bit (4 :: 'a::len word) n \<longleftrightarrow> n = 2 \<and> n < LENGTH('a)"
proof -
  have "bit (mask 16 :: 'a word) n \<longleftrightarrow> n < 16 \<and> n < LENGTH('a)"
    "bit (mask 3 :: 'a word) n \<longleftrightarrow> n < 3 \<and> n < LENGTH('a)"
    by (auto simp add: bit_mask_iff)
  then show "bit (0xFFFF :: 'a word) n \<longleftrightarrow> n < 16 \<and> n < LENGTH('a)"
    "bit (7 :: 'a word) n \<longleftrightarrow> n < 3 \<and> n < LENGTH('a)"
    by (simp_all add: mask_eq_exp_minus_1)
  have "bit (2 ^ 10 :: 'a word) n \<longleftrightarrow> n = 10 \<and> n < LENGTH('a)"
    "bit (2 ^ 2 :: 'a word) n \<longleftrightarrow> n = 2 \<and> n < LENGTH('a)"
    by (auto simp add: bit_exp_iff simp del: power_numeral power_Suc power_Suc_0)
  then show "bit (0x400 :: 'a word) n \<longleftrightarrow> n = 10 \<and> n < LENGTH('a)"
    "bit (4 :: 'a word) n \<longleftrightarrow> n = 2 \<and> n < LENGTH('a)"
    by simp_all
qed

lemma bit_const_int:
  "bit (0xFFFF :: int) n \<longleftrightarrow> n < 16"
  "bit (7 :: int) n \<longleftrightarrow> n < 3"
  "bit (0x400 :: int) n \<longleftrightarrow> n = 10"
  "bit (4 :: int) n \<longleftrightarrow> n = 2"
proof -
  have "bit (mask 16 :: int) n \<longleftrightarrow> n < 16"
    "bit (mask 3 :: int) n \<longleftrightarrow> n < 3"
    by (auto simp add: bit_mask_iff)
  then show "bit (0xFFFF :: int) n \<longleftrightarrow> n < 16"
    "bit (7 :: int) n \<longleftrightarrow> n < 3"
    by (simp_all add: mask_eq_exp_minus_1)
  have "bit (2 ^ 10 :: int) n \<longleftrightarrow> n = 10"
    "bit (2 ^ 2 :: int) n \<longleftrightarrow> n = 2"
    by (auto simp add: bit_exp_iff simp del: power_numeral power_Suc power_Suc_0)
  then show "bit (0x400 :: int) n \<longleftrightarrow> n = 10"
    "bit (4 :: int) n \<longleftrightarrow> n = 2"
      by simp_all
qed

lemmas bit_const = bit_const_word bit_const_int

lemma enable_cmd_reg_closed: "enable_cmd_reg r = (r OR 7) AND NOT 0x400"
  unfolding enable_cmd_reg_def Let_def
  by (rule bit_word_eqI) (auto simp add: bit_simps bit_const dest: bit_imp_le_length)

lemma enable_cmd_reg_bits:
  "bit (enable_cmd_reg r) 0" "bit (enable_cmd_reg r) 1" "bit (enable_cmd_reg r) 2"
  "\<not> bit (enable_cmd_reg r) 10" "drop_bit 16 (enable_cmd_reg r) = drop_bit 16 r"
proof -
  show "bit (enable_cmd_reg r) 0" "bit (enable_cmd_reg r) 1" "bit (enable_cmd_reg r) 2"
    "\<not> bit (enable_cmd_reg r) 10"
    unfolding enable_cmd_reg_closed by (simp_all add: bit_simps bit_const)
  show "drop_bit 16 (enable_cmd_reg r) = drop_bit 16 r"
    unfolding enable_cmd_reg_closed 
    by (rule bit_word_eqI) (auto simp add: bit_simps bit_const dest: bit_imp_le_length)
qed

lemma mem_enable_test: "((ucast (r AND 0xFFFF :: u32) :: u16) AND 2 = 0) = (\<not> bit r 1)"
proof -
  have "(ucast (r AND 0xFFFF :: u32) :: u16) AND 2 ^ Suc 0 = 0 \<longleftrightarrow> \<not> bit r (Suc 0)"
    unfolding and_exp_eq_0_iff_not_bit by (simp add: bit_simps bit_const)
  then show ?thesis by simp
qed

text \<open>
  \<^verbatim>\<open>pcie_enable_device\<close> in terms of its three configuration accesses: the word handed
  to the write is the word returned by the first read with bits 0, 1 and 2 set and bit
  10 cleared, and the result is \<open>-1\<close> when bit 1 of the word returned by the second read
  is clear.
\<close>

lemma enable_device_spec:
  "pcie_enable_device h dbi_base cfg_base bar_phys m =
     (let (cmd_reg, m1) = pcie_config_read32 h dbi_base cfg_base bar_phys 0x04 False m;
          m2 = pcie_config_write32 h dbi_base cfg_base bar_phys 0x04
                 ((cmd_reg OR 7) AND NOT 0x400) False m1;
          (readback, m3) = pcie_config_read32 h dbi_base cfg_base bar_phys 0x04 True m2
      in (if bit readback 1 then 0 else - 1, m3)) \<and>
   bit (enable_cmd_reg r) 0 \<and> bit (enable_cmd_reg r) 1 \<and> bit (enable_cmd_reg r) 2 \<and>
   \<not> bit (enable_cmd_reg r) 10 \<and> drop_bit 16 (enable_cmd_reg r) = drop_bit 16 r"
proof -
  have "pcie_enable_device h dbi_base cfg_base bar_phys m =
     (let (cmd_reg, m1) = pcie_config_read32 h dbi_base cfg_base bar_phys 0x04 False m;
          m2 = pcie_config_write32 h dbi_base cfg_base bar_phys 0x04
                 ((cmd_reg OR 7) AND NOT 0x400) False m1;
          (readback, m3) = pcie_config_read32 h dbi_base cfg_base bar_phys 0x04 True m2
      in (if bit readback 1 then 0 else - 1, m3))"
    by (simp add: pcie_enable_device_def split_beta Let_def mem_enable_test enable_cmd_reg_closed)
  then show ?thesis
    using enable_cmd_reg_bits[of r] by (intro conjI)
qed

subsection \<open>BAR sizing\<close>

lemma wait_enable_first_eq:
  "bit (fst (hw_read32 h a (dev m))) 31 \<Longrightarrow>
     atu_wait_enable h a (Suc n) m = (0, DSB_SY (snd (read32 h a (DSB_SY m))))"
  by (auto simp add: Let_def read32_def DSB_SY_def enable_bit_test split: prod.splits)

lemma bit31_enable: "bit ((0x80000000 AND w) OR (x AND NOT w) :: u32) 31 \<longleftrightarrow> bit w 31 \<or> bit x 31"
proof -
  have "bit (2 ^ 31 :: u32) 31" by (simp add: bit_exp_iff del: power_numeral)
  then have "bit (0x80000000 :: u32) 31" by simp
  then show ?thesis by (auto simp add: bit_simps)
qed

lemma setup_regfile:
  assumes en: "bit (wmask (region_base dbi 1 + 0x04)) 31"
  shows "\<exists>m' evs. dw_pcie_setup_atu (regfile_hw wmask) dbi 1 ty host bus sz m = (0, m') \<and>
           (\<forall>x. x \<notin> atu_regs (region_base dbi 1) \<longrightarrow> dev m' x = dev m x) \<and>
           trace m' = trace m @ evs \<and>
           (\<forall>x. x \<notin> atu_regs (region_base dbi 1) \<longrightarrow> reg_written evs x = None)"
proof -
  let ?rb = "region_base dbi 1"
  have five: "(5::nat) = Suc 4" by simp
  show ?thesis
    unfolding setup_atu_unfold five
    apply (subst wait_enable_first_eq)
     apply (simp add: regfile_hw_def bit31_enable en)
    apply (simp add: read32_def DSB_SY_def regfile_hw_def atu_program_events_def atu_regs_def)
    done
qed

lemma cfg_read_regfile:
  assumes en: "bit (wmask (region_base dbi 1 + 0x04)) 31"
    and a: "cfg + ucast off \<notin> atu_regs (region_base dbi 1)"
  shows "\<exists>m' evs. pcie_config_read32 (regfile_hw wmask) dbi cfg 0 off False m = (dev m (cfg + ucast off), m') \<and>
           (\<forall>x. x \<notin> atu_regs (region_base dbi 1) \<longrightarrow> dev m' x = dev m x) \<and>
           trace m' = trace m @ evs \<and>
           (\<forall>x. x \<notin> atu_regs (region_base dbi 1) \<longrightarrow> reg_written evs x = None)"
proof -
  from setup_regfile[where wmask = wmask and dbi = dbi and ty = 4 and host = "0xf3000000" and bus = 0 and sz = "0x100000" and m = m, OF en] obtain m1 evs1 where
    s: "dw_pcie_setup_atu (regfile_hw wmask) dbi 1 4 0xf3000000 0 0x100000 m = (0, m1)"
    and d: "\<forall>x. x \<notin> atu_regs (region_base dbi 1) \<longrightarrow> dev m1 x = dev m x"
    and t: "trace m1 = trace m @ evs1"
    and w: "\<forall>x. x \<notin> atu_regs (region_base dbi 1) \<longrightarrow> reg_written evs1 x = None"
    by blast
  show ?thesis
    apply (rule exI[of _ "snd (read32 (regfile_hw wmask) (cfg + ucast off) m1)"])
    apply (rule exI[of _ "evs1 @ [Read32 (cfg + ucast off) (dev m1 (cfg + ucast off))]"])
    using s d t w a
    by (simp add: pcie_config_read32_def read32_def regfile_hw_def reg_written_append)
qed

lemma cfg_write_regfile:
  assumes en: "bit (wmask (region_base dbi 1 + 0x04)) 31"
    and a: "cfg + ucast off \<notin> atu_regs (region_base dbi 1)"
  shows "\<exists>m' evs. pcie_config_write32 (regfile_hw wmask) dbi cfg 0 off v False m = m' \<and>
           dev m' (cfg + ucast off) =
             (v AND wmask (cfg + ucast off)) OR (dev m (cfg + ucast off) AND NOT (wmask (cfg + ucast off))) \<and>
           (\<forall>x. x \<notin> atu_regs (region_base dbi 1) \<longrightarrow> x \<noteq> cfg + ucast off \<longrightarrow> dev m' x = dev m x) \<and>
           trace m' = trace m @ evs \<and>
           reg_written evs (cfg + ucast off) = Some v \<and>
           (\<forall>x. x \<notin> atu_regs (region_base dbi 1) \<longrightarrow> x \<noteq> cfg + ucast off \<longrightarrow> reg_written evs x = None)"
proof -
  from setup_regfile[where wmask = wmask and dbi = dbi and ty = 4 and host = "0xf3000000" and bus = 0 and sz = "0x100000" and m = m, OF en] obtain m1 evs1 where
    s: "dw_pcie_setup_atu (regfile_hw wmask) dbi 1 4 0xf3000000 0 0x100000 m = (0, m1)"
    and d: "\<forall>x. x \<notin> atu_regs (region_base dbi 1) \<longrightarrow> dev m1 x = dev m x"
    and t: "trace m1 = trace m @ evs1"
    and w: "\<forall>x. x \<notin> atu_regs (region_base dbi 1) \<longrightarrow> reg_written evs1 x = None"
    by blast
  show ?thesis
    apply (rule exI[of _ "write32 (regfile_hw wmask) v (cfg + ucast off) m1"])
    apply (rule exI[of _ "evs1 @ [Write32 (cfg + ucast off) v]"])
    using s d t w a
    by (simp add: pcie_config_write32_def write32_def regfile_hw_def reg_written_append)
qed

lemma restore_bits: "(orig AND w) OR (((ones AND w) OR (orig AND NOT w)) AND NOT w) = (orig :: u32)"
  by (rule bit_word_eqI) (auto simp add: bit_simps)

lemma ones_bits: "(0xFFFFFFFF AND w) OR (orig AND NOT w) = (w OR orig :: u32)"
proof -
  have "(0xFFFFFFFF :: u32) = - 1" by simp
  then show ?thesis by (simp only:) (rule bit_word_eqI, auto simp add: bit_simps)
qed

lemma bit0_test: "(v AND 1 \<noteq> 0) = bit (v :: u32) 0"
  by (simp add: and_one_eq bit_0 odd_iff_mod_2_eq_one)

lemma ucast_u32_inj: "(ucast (x :: u32) :: u64) = ucast y \<longleftrightarrow> x = y"
proof
  assume e: "(ucast x :: u64) = ucast y"
  have r: "(ucast (ucast z :: u64) :: u32) = z" for z :: u32
    by (rule bit_word_eqI) (simp add: bit_simps)
  from e have "(ucast (ucast x :: u64) :: u32) = ucast (ucast y :: u64)" by simp
  then show "x = y" by (simp only: r)
qed simp

lemma bar_hi_neq: "cfg + ucast (off + 4 :: u32) \<noteq> (cfg + ucast off :: u64)"
  by (simp add: ucast_u32_inj)

lemma bar_info_regfile:
  fixes m :: "(u64 \<Rightarrow> u32, 'z) machine_scheme"
  assumes en: "bit (wmask (region_base dbi 1 + 0x04)) 31"
    and bar: "cfg + ucast (0x10 + n * 4) \<notin> atu_regs (region_base dbi 1)"
    and bar_hi: "cfg + ucast (0x14 + n * 4) \<notin> atu_regs (region_base dbi 1)"
  shows "\<exists>m1 evs.
           pcie_get_bar_info (regfile_hw wmask) dbi cfg n m =
             (0,
              bar_addr_formula (wmask (cfg + ucast (0x10 + n * 4)) OR dev m (cfg + ucast (0x10 + n * 4)))
                (dev m (cfg + ucast (0x10 + n * 4))) (dev m (cfg + ucast (0x14 + n * 4))),
              bar_size_formula (wmask (cfg + ucast (0x10 + n * 4)) OR dev m (cfg + ucast (0x10 + n * 4))),
              m1) \<and>
           dev m1 (cfg + ucast (0x10 + n * 4)) = dev m (cfg + ucast (0x10 + n * 4)) \<and>
           dev m1 (cfg + ucast (0x14 + n * 4)) = dev m (cfg + ucast (0x14 + n * 4)) \<and>
           trace m1 = trace m @ evs \<and>
           reg_written evs (cfg + ucast (0x10 + n * 4)) = Some (dev m (cfg + ucast (0x10 + n * 4)))"
proof -
  let ?H = "regfile_hw wmask"
  let ?off = "0x10 + n * 4"
  let ?B = "cfg + ucast ?off"
  let ?BH = "cfg + ucast (0x14 + n * 4)"
  let ?R = "atu_regs (region_base dbi 1)"
  have ne: "?BH \<noteq> ?B" using bar_hi_neq[of cfg ?off] by simp
  from cfg_read_regfile[where wmask = wmask and dbi = dbi and m = m, OF en bar] obtain m1 e1 where
    r1: "pcie_config_read32 ?H dbi cfg 0 ?off False m = (dev m ?B, m1)"
    and d1: "\<forall>x. x \<notin> ?R \<longrightarrow> dev m1 x = dev m x"
    and t1: "trace m1 = trace m @ e1"
    by blast
  from cfg_write_regfile[where wmask = wmask and dbi = dbi and m = m1 and v = "0xFFFFFFFF", OF en bar]
  obtain m2 e2 where
    w2: "pcie_config_write32 ?H dbi cfg 0 ?off 0xFFFFFFFF False m1 = m2"
    and v2: "dev m2 ?B = (0xFFFFFFFF AND wmask ?B) OR (dev m1 ?B AND NOT (wmask ?B))"
    and d2: "\<forall>x. x \<notin> ?R \<longrightarrow> x \<noteq> ?B \<longrightarrow> dev m2 x = dev m1 x"
    and t2: "trace m2 = trace m1 @ e2"
    by blast
  from cfg_read_regfile[where wmask = wmask and dbi = dbi and m = m2, OF en bar] obtain m3 e3 where
    r3: "pcie_config_read32 ?H dbi cfg 0 ?off False m2 = (dev m2 ?B, m3)"
    and d3: "\<forall>x. x \<notin> ?R \<longrightarrow> dev m3 x = dev m2 x"
    and t3: "trace m3 = trace m2 @ e3"
    by blast
  from cfg_write_regfile[where wmask = wmask and dbi = dbi and m = m3 and v = "dev m ?B", OF en bar]
  obtain m4 e4 where
    w4: "pcie_config_write32 ?H dbi cfg 0 ?off (dev m ?B) False m3 = m4"
    and v4: "dev m4 ?B = (dev m ?B AND wmask ?B) OR (dev m3 ?B AND NOT (wmask ?B))"
    and d4: "\<forall>x. x \<notin> ?R \<longrightarrow> x \<noteq> ?B \<longrightarrow> dev m4 x = dev m3 x"
    and t4: "trace m4 = trace m3 @ e4"
    and k4: "reg_written e4 ?B = Some (dev m ?B)"
    by blast
  from cfg_read_regfile[where wmask = wmask and dbi = dbi and m = m4, OF en bar_hi] obtain m5 e5 where
    r5: "pcie_config_read32 ?H dbi cfg 0 (0x14 + n * 4) False m4 = (dev m4 ?BH, m5)"
    and d5: "\<forall>x. x \<notin> ?R \<longrightarrow> dev m5 x = dev m4 x"
    and t5: "trace m5 = trace m4 @ e5"
    and k5: "\<forall>x. x \<notin> ?R \<longrightarrow> reg_written e5 x = None"
    by blast
  have rb: "dev m2 ?B = wmask ?B OR dev m ?B"
    using v2 d1 bar by (simp add: ones_bits)
  have b4: "dev m4 ?B = dev m ?B"
    using v4 d3 bar v2 d1 by (simp add: restore_bits)
  have h4: "dev m4 ?BH = dev m ?BH"
    using d4 d3 d2 d1 bar_hi ne by simp
  have b5: "dev m5 ?B = dev m ?B" "dev m5 ?BH = dev m ?BH"
    using d5 b4 h4 bar bar_hi by simp_all
  have tr4: "trace m4 = trace m @ (e1 @ e2 @ e3 @ e4)" using t1 t2 t3 t4 by simp
  have tr5: "trace m5 = trace m @ (e1 @ e2 @ e3 @ e4 @ e5)" using tr4 t5 by simp
  have k: "reg_written (e1 @ e2 @ e3 @ e4) ?B = Some (dev m ?B)"
    "reg_written (e1 @ e2 @ e3 @ e4 @ e5) ?B = Some (dev m ?B)"
    using k4 k5 bar by (simp_all add: reg_written_append)
  have res: "pcie_get_bar_info ?H dbi cfg n m =
      (0, bar_addr_formula (wmask ?B OR dev m ?B) (dev m ?B) (dev m ?BH),
       bar_size_formula (wmask ?B OR dev m ?B),
       if \<not> bit (wmask ?B OR dev m ?B) 0 \<and> dev m ?B AND 0x6 = 0x4 then m5 else m4)"
    unfolding pcie_get_bar_info_def Let_def
    by (simp add: r1 w2 r3 w4 r5 rb h4 bit0_test bar_addr_formula_def bar_size_formula_def
        bar_type_mask_def)
  show ?thesis
  proof (cases "\<not> bit (wmask ?B OR dev m ?B) 0 \<and> dev m ?B AND 0x6 = 0x4")
    case True
    with res b5 tr5 k show ?thesis
      by (intro exI[of _ m5] exI[of _ "e1 @ e2 @ e3 @ e4 @ e5"]) simp
  next
    case False
    with res b4 h4 tr4 k show ?thesis
      by (intro exI[of _ m4] exI[of _ "e1 @ e2 @ e3 @ e4"]) auto
  qed
qed

text \<open>
  C10 (as amended). On hardware that is a file of registers, where the enable bit of
  the swing region is writable and the BAR and the BAR after it are not registers of
  that region: \<^verbatim>\<open>pcie_get_bar_info\<close> called twice in a row returns the same address and
  size; after each call the BAR register holds its value from before the first call, and
  the last write of the probe to the BAR register is that value; the size is
  \<open>~(readback & type-mask) + 1\<close> in 32 bits, the read-back being the original value with
  every writable bit set.
\<close>

theorem bar_info_idempotent:
  fixes m :: "(u64 \<Rightarrow> u32) machine"
  assumes "bit (wmask (region_base dbi_base 1 + 0x04)) 31"
    and "cfg_base + ucast (0x10 + bar_num * 4) \<notin> atu_regs (region_base dbi_base 1)"
    and "cfg_base + ucast (0x14 + bar_num * 4) \<notin> atu_regs (region_base dbi_base 1)"
  shows "\<exists>addr sz m1 m2 evs.
           pcie_get_bar_info (regfile_hw wmask) dbi_base cfg_base bar_num m = (0, addr, sz, m1) \<and>
           pcie_get_bar_info (regfile_hw wmask) dbi_base cfg_base bar_num m1 = (0, addr, sz, m2) \<and>
           dev m1 (cfg_base + ucast (0x10 + bar_num * 4)) = dev m (cfg_base + ucast (0x10 + bar_num * 4)) \<and>
           dev m2 (cfg_base + ucast (0x10 + bar_num * 4)) = dev m (cfg_base + ucast (0x10 + bar_num * 4)) \<and>
           trace m1 = trace m @ evs \<and>
           reg_written evs (cfg_base + ucast (0x10 + bar_num * 4)) =
             Some (dev m (cfg_base + ucast (0x10 + bar_num * 4))) \<and>
           sz = bar_size_formula (wmask (cfg_base + ucast (0x10 + bar_num * 4)) OR
                                    dev m (cfg_base + ucast (0x10 + bar_num * 4)))"
proof -
  let ?B = "cfg_base + ucast (0x10 + bar_num * 4)"
  let ?BH = "cfg_base + ucast (0x14 + bar_num * 4)"
  from bar_info_regfile[where wmask = wmask and dbi = dbi_base and m = m, OF assms]
  obtain m1 evs where
    c1: "pcie_get_bar_info (regfile_hw wmask) dbi_base cfg_base bar_num m =
           (0, bar_addr_formula (wmask ?B OR dev m ?B) (dev m ?B) (dev m ?BH),
            bar_size_formula (wmask ?B OR dev m ?B), m1)"
    and b1: "dev m1 ?B = dev m ?B" and h1: "dev m1 ?BH = dev m ?BH"
    and t1: "trace m1 = trace m @ evs" and k1: "reg_written evs ?B = Some (dev m ?B)"
    by blast
  from bar_info_regfile[where wmask = wmask and dbi = dbi_base and m = m1, OF assms]
  obtain m2 where
    c2: "pcie_get_bar_info (regfile_hw wmask) dbi_base cfg_base bar_num m1 =
           (0, bar_addr_formula (wmask ?B OR dev m1 ?B) (dev m1 ?B) (dev m1 ?BH),
            bar_size_formula (wmask ?B OR dev m1 ?B), m2)"
    and b2: "dev m2 ?B = dev m1 ?B"
    by blast
  from c1 c2 b1 h1 b2 t1 k1 show ?thesis
    by (intro exI[of _ m1] exI[of _ m2] exI[of _ evs]
        exI[of _ "bar_addr_formula (wmask ?B OR dev m ?B) (dev m ?B) (dev m ?BH)"]
        exI[of _ "bar_size_formula (wmask ?B OR dev m ?B)"]) simp
qed

theorem bar_info_idempotent_witness:
  "bit (example_wmask (region_base 0xa40c00000 1 + 0x04)) 31 \<and>
   0xf3000000 + ucast (0x10 + 2 * 4 :: u32) \<notin> atu_regs (region_base 0xa40c00000 1) \<and>
   0xf3000000 + ucast (0x14 + 2 * 4 :: u32) \<notin> atu_regs (region_base 0xa40c00000 1) \<and>
   (\<exists>addr sz m1 m2 evs.
      pcie_get_bar_info (regfile_hw example_wmask) 0xa40c00000 0xf3000000 2 example_regs = (0, addr, sz, m1) \<and>
      pcie_get_bar_info (regfile_hw example_wmask) 0xa40c00000 0xf3000000 2 m1 = (0, addr, sz, m2) \<and>
      dev m1 (0xf3000000 + ucast (0x10 + 2 * 4 :: u32)) = dev example_regs (0xf3000000 + ucast (0x10 + 2 * 4 :: u32)) \<and>
      dev m2 (0xf3000000 + ucast (0x10 + 2 * 4 :: u32)) = dev example_regs (0xf3000000 + ucast (0x10 + 2 * 4 :: u32)) \<and>
      trace m1 = trace example_regs @ evs \<and>
      reg_written evs (0xf3000000 + ucast (0x10 + 2 * 4 :: u32)) =
        Some (dev example_regs (0xf3000000 + ucast (0x10 + 2 * 4 :: u32))) \<and>
      sz = 0x10000)"
proof -
  have b31: "bit (0xFFFFFFFF :: u32) 31"
  proof -
    have "bit (- 1 :: u32) 31" by simp
    then show ?thesis by simp
  qed
  have h1: "bit (example_wmask (region_base 0xa40c00000 1 + 0x04)) 31"
    by (simp add: example_wmask_def region_base_def b31)
  have h2: "0xf3000000 + ucast (0x10 + 2 * 4 :: u32) \<notin> atu_regs (region_base 0xa40c00000 1)"
    by (simp add: atu_regs_def region_base_def)
  have h3: "0xf3000000 + ucast (0x14 + 2 * 4 :: u32) \<notin> atu_regs (region_base 0xa40c00000 1)"
    by (simp add: atu_regs_def region_base_def)
  have sz: "bar_size_formula (example_wmask (0xf3000000 + ucast (0x10 + 2 * 4 :: u32)) OR
              dev example_regs (0xf3000000 + ucast (0x10 + 2 * 4 :: u32))) = 0x10000"
    by (simp add: bar_size_formula_def bar_type_mask_def example_wmask_def example_regs_def)
  from bar_info_idempotent[where wmask = example_wmask and dbi_base = "0xa40c00000"
      and cfg_base = "0xf3000000" and bar_num = 2 and m = example_regs, OF h1 h2 h3] h1 h2 h3 sz
  show ?thesis
    by (simp only:) blast
qed

lemma program_events_outside:
  "a \<notin> atu_regs rb \<Longrightarrow> reg_written (atu_program_events rb ty host bus sz) a = None"
  by (simp add: atu_program_events_def atu_regs_def)

lemma flaky_setup_dev:
  fixes m :: "(u32 \<times> nat) machine"
  shows "dev (snd (dw_pcie_setup_atu (flaky_hw 0xa40f00204 0xf3000018 k) 0xa40c00000 1 ty host bus sz m)) =
           (fst (dev m), Suc (snd (dev m))) \<and>
         (\<exists>evs. trace (snd (dw_pcie_setup_atu (flaky_hw 0xa40f00204 0xf3000018 k) 0xa40c00000 1 ty host bus sz m)) =
            trace m @ evs \<and> reg_written evs 0xf3000018 = None)"
proof -
  let ?F = "flaky_hw 0xa40f00204 0xf3000018 k"
  have w: "dev (snd (atu_wait_enable ?F a n m')) = dev m' \<and>
           (\<exists>evs. trace (snd (atu_wait_enable ?F a n m')) = trace m' @ evs \<and> (\<forall>e \<in> set evs. \<not> is_write e))"
    for a n and m' :: "(u32 \<times> nat) machine"
  proof (induction n arbitrary: m')
    case 0
    then show ?case by simp
  next
    case (Suc n)
    let ?m1 = "DSB_SY (snd (read32 ?F a (DSB_SY m')))"
    have d1: "dev ?m1 = dev m'" by (simp add: read32_def DSB_SY_def flaky_hw_def)
    have t1: "trace ?m1 = trace m' @ [Dsb, Read32 a (fst (read32 ?F a (DSB_SY m'))), Dsb]"
      by (simp add: read32_def DSB_SY_def split_beta)
    let ?m2 = "udelay ?F 1000 ?m1"
    have d2: "dev ?m2 = dev m'" using d1 by (simp add: udelay_def flaky_hw_def)
    have t2: "trace ?m2 = trace m' @ [Dsb, Read32 a (fst (read32 ?F a (DSB_SY m'))), Dsb, Delay 1000]"
      using t1 by (simp add: udelay_def)
    from Suc.IH[of ?m2] obtain evs where
      i: "dev (snd (atu_wait_enable ?F a n ?m2)) = dev ?m2"
      "trace (snd (atu_wait_enable ?F a n ?m2)) = trace ?m2 @ evs" "\<forall>e \<in> set evs. \<not> is_write e"
      by blast
    have u: "atu_wait_enable ?F a (Suc n) m' =
        (if fst (read32 ?F a (DSB_SY m')) AND 0x80000000 \<noteq> 0 then (0, ?m1)
         else atu_wait_enable ?F a n ?m2)"
      by (simp add: Let_def split_beta)
    show ?case
    proof (cases "fst (read32 ?F a (DSB_SY m')) AND 0x80000000 \<noteq> 0")
      case True
      with u d1 t1 show ?thesis
        by (intro conjI exI[of _ "[Dsb, Read32 a (fst (read32 ?F a (DSB_SY m'))), Dsb]"]) simp_all
    next
      case False
      with u i d2 t2 show ?thesis
        by (intro conjI exI[of _ "[Dsb, Read32 a (fst (read32 ?F a (DSB_SY m'))), Dsb, Delay 1000] @ evs"])
          simp_all
    qed
  qed
  obtain m0 where m0: "dw_pcie_setup_atu ?F 0xa40c00000 1 ty host bus sz m =
       atu_wait_enable ?F (region_base 0xa40c00000 1 + 4) 5 m0"
    and d0: "dev m0 = (fst (dev m), Suc (snd (dev m)))"
    and t0: "trace m0 = trace m @ atu_program_events (region_base 0xa40c00000 1) ty host bus sz"
    unfolding setup_atu_unfold by (simp add: flaky_hw_def region_base_def)
  from w[of "region_base 0xa40c00000 1 + 4" 5 m0] obtain evs where
    e: "dev (snd (atu_wait_enable ?F (region_base 0xa40c00000 1 + 4) 5 m0)) = dev m0"
    "trace (snd (atu_wait_enable ?F (region_base 0xa40c00000 1 + 4) 5 m0)) = trace m0 @ evs"
    "\<forall>e \<in> set evs. \<not> is_write e"
    by blast
  have o: "(0xf3000018 :: u64) \<notin> atu_regs (region_base 0xa40c00000 1)"
    by (simp add: atu_regs_def region_base_def)
  have "reg_written (atu_program_events (region_base 0xa40c00000 1) ty host bus sz @ evs) 0xf3000018 = None"
    by (simp add: reg_written_append reg_written_no_write[OF e(3)] program_events_outside[OF o])
  with m0 d0 t0 e show ?thesis
    by (intro conjI exI[of _ "atu_program_events (region_base 0xa40c00000 1) ty host bus sz @ evs"]) simp_all
qed

lemma flaky_setup_ret:
  fixes m :: "(u32 \<times> nat) machine"
  shows "fst (dw_pcie_setup_atu (flaky_hw 0xa40f00204 0xf3000018 k) 0xa40c00000 1 ty host bus sz m) =
           (if Suc (snd (dev m)) \<le> k then 0 else - 1)"
proof -
  let ?F = "flaky_hw 0xa40f00204 0xf3000018 k"
  have b: "bit (0x80000000 :: u32) 31" using enable_bit_test[of "0x80000000"] by simp
  have ok: "snd (dev m') \<le> k \<Longrightarrow> fst (atu_wait_enable ?F 0xa40f00204 (Suc n) m') = 0"
    for n and m' :: "(u32 \<times> nat) machine"
    by (rule wait_enable_first) (simp add: flaky_hw_def b)
  have ko: "\<not> snd (dev m') \<le> k \<Longrightarrow> fst (atu_wait_enable ?F 0xa40f00204 n m') = - 1"
    for n and m' :: "(u32 \<times> nat) machine"
    by (induction n arbitrary: m')
      (simp_all add: Let_def split_beta read32_def DSB_SY_def udelay_def flaky_hw_def)
  obtain m0 where m0: "dw_pcie_setup_atu ?F 0xa40c00000 1 ty host bus sz m =
       atu_wait_enable ?F 0xa40f00204 (Suc 4) m0"
    and d0: "dev m0 = (fst (dev m), Suc (snd (dev m)))"
    unfolding setup_atu_unfold by (simp add: flaky_hw_def region_base_def)
  show ?thesis
    using ok[of m0 4] ko[of m0 "Suc 4"] m0 d0 by (cases "Suc (snd (dev m)) \<le> k") simp_all
qed

lemma flaky_cfg_read:
  fixes m :: "(u32 \<times> nat) machine"
  assumes "Suc (snd (dev m)) \<le> k"
  shows "fst (pcie_config_read32 (flaky_hw 0xa40f00204 0xf3000018 k) 0xa40c00000 0xf3000000 0 0x18 False m) =
           fst (dev m) \<and>
         dev (snd (pcie_config_read32 (flaky_hw 0xa40f00204 0xf3000018 k) 0xa40c00000 0xf3000000 0 0x18 False m)) =
           (fst (dev m), Suc (snd (dev m))) \<and>
         (\<exists>evs. trace (snd (pcie_config_read32 (flaky_hw 0xa40f00204 0xf3000018 k) 0xa40c00000 0xf3000000 0 0x18
                   False m)) = trace m @ evs \<and> reg_written evs 0xf3000018 = None)"
proof -
  let ?F = "flaky_hw 0xa40f00204 0xf3000018 k"
  let ?s = "dw_pcie_setup_atu ?F 0xa40c00000 1 4 0xf3000000 0 0x100000 m"
  from flaky_setup_dev[of k 4 "0xf3000000" 0 "0x100000" m] obtain evs where
    d: "dev (snd ?s) = (fst (dev m), Suc (snd (dev m)))"
    and t: "trace (snd ?s) = trace m @ evs" and w: "reg_written evs 0xf3000018 = None"
    by blast
  have r: "fst ?s = 0" using assms by (simp add: flaky_setup_ret)
  have e: "pcie_config_read32 ?F 0xa40c00000 0xf3000000 0 0x18 False m = read32 ?F 0xf3000018 (snd ?s)"
    using r by (simp add: pcie_config_read32_def split_beta)
  show ?thesis
    unfolding e using d t w
    by (intro conjI exI[of _ "evs @ [Read32 0xf3000018 (fst (dev m))]"])
      (simp_all add: read32_def flaky_hw_def reg_written_append)
qed

lemma flaky_cfg_write:
  fixes m :: "(u32 \<times> nat) machine"
  shows "dev (pcie_config_write32 (flaky_hw 0xa40f00204 0xf3000018 k) 0xa40c00000 0xf3000000 0 0x18 v False m) =
           (if Suc (snd (dev m)) \<le> k then v else fst (dev m), Suc (snd (dev m))) \<and>
         (\<exists>evs. trace (pcie_config_write32 (flaky_hw 0xa40f00204 0xf3000018 k) 0xa40c00000 0xf3000000 0 0x18 v
                   False m) = trace m @ evs \<and>
            reg_written evs 0xf3000018 = (if Suc (snd (dev m)) \<le> k then Some v else None))"
proof -
  let ?F = "flaky_hw 0xa40f00204 0xf3000018 k"
  let ?s = "dw_pcie_setup_atu ?F 0xa40c00000 1 4 0xf3000000 0 0x100000 m"
  from flaky_setup_dev[of k 4 "0xf3000000" 0 "0x100000" m] obtain evs where
    d: "dev (snd ?s) = (fst (dev m), Suc (snd (dev m)))"
    and t: "trace (snd ?s) = trace m @ evs" and w: "reg_written evs 0xf3000018 = None"
    by blast
  show ?thesis
  proof (cases "Suc (snd (dev m)) \<le> k")
    case True
    then have r: "fst ?s = 0" by (simp add: flaky_setup_ret)
    have e: "pcie_config_write32 ?F 0xa40c00000 0xf3000000 0 0x18 v False m = write32 ?F v 0xf3000018 (snd ?s)"
      using r by (simp add: pcie_config_write32_def split_beta)
    show ?thesis
      unfolding e using d t w True
      by (intro conjI exI[of _ "evs @ [Write32 0xf3000018 v]"])
        (simp_all add: write32_def flaky_hw_def reg_written_append)
  next
    case False
    then have r: "fst ?s = - 1" by (simp add: flaky_setup_ret)
    have e: "pcie_config_write32 ?F 0xa40c00000 0xf3000000 0 0x18 v False m = snd ?s"
      using r by (simp add: pcie_config_write32_def split_beta)
    show ?thesis
      unfolding e using d t w False by (intro conjI exI[of _ evs]) simp_all
  qed
qed

text \<open>
  C10, against the claim as stated: the restore is skipped when the reprogramming before
  it times out. On hardware whose swing region enables three times and not a fourth,
  probing BAR 2 (which holds \<open>0xE0000000\<close>) returns 0 and leaves all-ones in the BAR
  register: the last value the probe wrote to it.
\<close>

theorem bar_not_restored_on_timeout:
  "fst (pcie_get_bar_info (flaky_hw 0xa40f00204 0xf3000018 3) 0xa40c00000 0xf3000000 2 flaky_machine0) = 0 \<and>
   fst (dev flaky_machine0) = 0xE0000000 \<and>
   fst (dev (snd (snd (snd (pcie_get_bar_info (flaky_hw 0xa40f00204 0xf3000018 3) 0xa40c00000 0xf3000000 2
          flaky_machine0))))) = 0xFFFFFFFF \<and>
   reg_written (trace (snd (snd (snd (pcie_get_bar_info (flaky_hw 0xa40f00204 0xf3000018 3) 0xa40c00000
          0xf3000000 2 flaky_machine0))))) 0xf3000018 = Some 0xFFFFFFFF"
proof -
  let ?F = "flaky_hw 0xa40f00204 0xf3000018 3"
  let ?r1 = "pcie_config_read32 ?F 0xa40c00000 0xf3000000 0 0x18 False flaky_machine0"
  let ?m2 = "pcie_config_write32 ?F 0xa40c00000 0xf3000000 0 0x18 0xFFFFFFFF False (snd ?r1)"
  let ?r3 = "pcie_config_read32 ?F 0xa40c00000 0xf3000000 0 0x18 False ?m2"
  let ?m4 = "pcie_config_write32 ?F 0xa40c00000 0xf3000000 0 0x18 (fst ?r1) False (snd ?r3)"
  have d0: "dev flaky_machine0 = (0xE0000000, 0)" "trace flaky_machine0 = []"
    by (simp_all add: flaky_machine0_def)
  from flaky_cfg_read[of flaky_machine0 3] obtain e1 where
    v1: "fst ?r1 = 0xE0000000" and d1: "dev (snd ?r1) = (0xE0000000, 1)"
    and t1: "trace (snd ?r1) = e1"
    by (auto simp add: d0)
  from flaky_cfg_write[of 3 "0xFFFFFFFF" "snd ?r1"] obtain e2 where
    d2: "dev ?m2 = (0xFFFFFFFF, 2)" and t2: "trace ?m2 = e1 @ e2"
    and w2: "reg_written e2 0xf3000018 = Some 0xFFFFFFFF"
    by (auto simp add: d1 t1)
  from flaky_cfg_read[of ?m2 3] obtain e3 where
    v3: "fst ?r3 = 0xFFFFFFFF" and d3: "dev (snd ?r3) = (0xFFFFFFFF, 3)"
    and t3: "trace (snd ?r3) = e1 @ e2 @ e3" and w3: "reg_written e3 0xf3000018 = None"
    by (auto simp add: d2 t2)
  from flaky_cfg_write[of 3 "fst ?r1" "snd ?r3"] obtain e4 where
    d4: "dev ?m4 = (0xFFFFFFFF, 4)" and t4: "trace ?m4 = e1 @ e2 @ e3 @ e4"
    and w4: "reg_written e4 0xf3000018 = None"
    by (auto simp add: d3 t3)
  have g: "pcie_get_bar_info ?F 0xa40c00000 0xf3000000 2 flaky_machine0 =
      (0, ucast (fst ?r1 AND 0xFFFFFFFC), ucast (NOT (fst ?r3 AND 0xFFFFFFFC) + 1), ?m4)"
    by (simp add: pcie_get_bar_info_def Let_def split_beta v3)
  show ?thesis
    unfolding g by (simp add: d0 d4 t4 w2 w3 w4 reg_written_append)
qed

subsection \<open>Enabling the device: the accesses\<close>

lemma reg_reads_append: "reg_reads (xs @ ys) a = reg_reads xs a @ reg_reads ys a"
  by (induction xs a rule: reg_reads.induct) simp_all

lemma program_events_no_reads: "reg_reads (atu_program_events rb ty host bus sz) a = []"
  by (simp add: atu_program_events_def)

lemma failed_polls_outside:
  "a \<notin> atu_regs rb \<Longrightarrow>
     reg_reads (concat (map (atu_failed_poll rb) vs)) a = [] \<and>
     reg_written (concat (map (atu_failed_poll rb) vs)) a = None"
  by (induction vs) (simp_all add: atu_failed_poll_def atu_regs_def reg_written_append)

lemma setup_regfile_accesses:
  assumes en: "bit (wmask (region_base dbi 1 + 0x04)) 31"
  shows "\<exists>m' evs. dw_pcie_setup_atu (regfile_hw wmask) dbi 1 ty host bus sz m = (0, m') \<and>
           (\<forall>x. x \<notin> atu_regs (region_base dbi 1) \<longrightarrow> dev m' x = dev m x) \<and>
           trace m' = trace m @ evs \<and>
           (\<forall>x. x \<notin> atu_regs (region_base dbi 1) \<longrightarrow> reg_written evs x = None \<and> reg_reads evs x = [])"
proof -
  have five: "(5::nat) = Suc 4" by simp
  show ?thesis
    unfolding setup_atu_unfold five
    apply (subst wait_enable_first_eq)
     apply (simp add: regfile_hw_def bit31_enable en)
    apply (simp add: read32_def DSB_SY_def regfile_hw_def atu_program_events_def atu_regs_def)
    done
qed

lemma cfg_read_regfile_accesses:
  assumes en: "bit (wmask (region_base dbi 1 + 0x04)) 31"
    and a: "cfg + ucast off \<notin> atu_regs (region_base dbi 1)"
  shows "\<exists>m' evs. pcie_config_read32 (regfile_hw wmask) dbi cfg bar off rm m = (dev m (cfg + ucast off), m') \<and>
           (\<forall>x. x \<notin> atu_regs (region_base dbi 1) \<longrightarrow> dev m' x = dev m x) \<and>
           trace m' = trace m @ evs \<and>
           reg_written evs (cfg + ucast off) = None \<and>
           reg_reads evs (cfg + ucast off) = [dev m (cfg + ucast off)]"
proof -
  let ?H = "regfile_hw wmask"
  let ?A = "cfg + ucast off"
  let ?R = "atu_regs (region_base dbi 1)"
  from setup_regfile_accesses[where wmask = wmask and dbi = dbi and ty = 4 and host = "0xf3000000"
      and bus = 0 and sz = "0x100000" and m = m, OF en]
  obtain m1 e1 where
    s1: "dw_pcie_setup_atu ?H dbi 1 4 0xf3000000 0 0x100000 m = (0, m1)"
    and d1: "\<forall>x. x \<notin> ?R \<longrightarrow> dev m1 x = dev m x"
    and t1: "trace m1 = trace m @ e1"
    and w1: "\<forall>x. x \<notin> ?R \<longrightarrow> reg_written e1 x = None \<and> reg_reads e1 x = []"
    by blast
  let ?m2 = "snd (read32 ?H ?A m1)"
  have v2: "fst (read32 ?H ?A m1) = dev m ?A" using d1 a by (simp add: read32_def regfile_hw_def)
  have d2: "dev ?m2 = dev m1" by (simp add: read32_def regfile_hw_def)
  have t2: "trace ?m2 = trace m @ e1 @ [Read32 ?A (dev m ?A)]"
    using t1 d1 a by (simp add: read32_def regfile_hw_def)
  from setup_regfile_accesses[where wmask = wmask and dbi = dbi and ty = 0 and host = "0x9c0100000"
      and bus = bar and sz = "0x10000" and m = ?m2, OF en]
  obtain m3 e3 where
    s3: "dw_pcie_setup_atu ?H dbi 1 0 0x9c0100000 bar 0x10000 ?m2 = (0, m3)"
    and d3: "\<forall>x. x \<notin> ?R \<longrightarrow> dev m3 x = dev ?m2 x"
    and t3: "trace m3 = trace ?m2 @ e3"
    and w3: "\<forall>x. x \<notin> ?R \<longrightarrow> reg_written e3 x = None \<and> reg_reads e3 x = []"
    by blast
  have u: "pcie_config_read32 ?H dbi cfg bar off rm m =
      (dev m ?A, if rm \<and> bar \<noteq> 0 then m3 else ?m2)"
    using s1 s3 v2 by (simp add: pcie_config_read32_def split_beta)
  show ?thesis
  proof (cases "rm \<and> bar \<noteq> 0")
    case True
    with u d1 d2 d3 t2 t3 w1 w3 a show ?thesis
      by (intro exI[of _ m3] exI[of _ "e1 @ [Read32 ?A (dev m ?A)] @ e3"])
        (simp add: reg_written_append reg_reads_append)
  next
    case False
    with u d1 d2 t2 w1 a show ?thesis
      by (intro exI[of _ ?m2] exI[of _ "e1 @ [Read32 ?A (dev m ?A)]"])
        (auto simp add: reg_written_append reg_reads_append)
  qed
qed

lemma cfg_write_regfile_accesses:
  assumes en: "bit (wmask (region_base dbi 1 + 0x04)) 31"
    and a: "cfg + ucast off \<notin> atu_regs (region_base dbi 1)"
  shows "\<exists>m' evs. pcie_config_write32 (regfile_hw wmask) dbi cfg bar off v False m = m' \<and>
           dev m' (cfg + ucast off) =
             (v AND wmask (cfg + ucast off)) OR (dev m (cfg + ucast off) AND NOT (wmask (cfg + ucast off))) \<and>
           trace m' = trace m @ evs \<and>
           reg_written evs (cfg + ucast off) = Some v \<and>
           reg_reads evs (cfg + ucast off) = []"
proof -
  let ?H = "regfile_hw wmask"
  let ?A = "cfg + ucast off"
  let ?R = "atu_regs (region_base dbi 1)"
  from setup_regfile_accesses[where wmask = wmask and dbi = dbi and ty = 4 and host = "0xf3000000"
      and bus = 0 and sz = "0x100000" and m = m, OF en]
  obtain m1 e1 where
    s1: "dw_pcie_setup_atu ?H dbi 1 4 0xf3000000 0 0x100000 m = (0, m1)"
    and d1: "\<forall>x. x \<notin> ?R \<longrightarrow> dev m1 x = dev m x"
    and t1: "trace m1 = trace m @ e1"
    and w1: "\<forall>x. x \<notin> ?R \<longrightarrow> reg_written e1 x = None \<and> reg_reads e1 x = []"
    by blast
  show ?thesis
    using s1 d1 t1 w1 a
    by (intro exI[of _ "write32 ?H v ?A m1"] exI[of _ "e1 @ [Write32 ?A v]"])
      (simp add: pcie_config_write32_def write32_def regfile_hw_def reg_written_append reg_reads_append)
qed

text \<open>
  C9 (as amended). On hardware that is a file of registers, where the enable bit of the
  swing region is writable and the command register is not a register of that region,
  so that every reprogramming succeeds: \<^verbatim>\<open>pcie_enable_device\<close> reads the command/status
  word at offset 4, leaves as last write to it the word read with bits 0 (I/O space), 1
  (memory space) and 2 (bus master) set, bit 10 (interrupt disable) cleared and the
  status half-word in bits 16 to 31 as read, then reads the register a second and last
  time, and returns \<open>-1\<close> if bit 1 of that read-back is clear and \<open>0\<close> otherwise.
\<close>

theorem enable_device_accesses:
  fixes m :: "(u64 \<Rightarrow> u32) machine"
  assumes "bit (wmask (region_base dbi_base 1 + 0x04)) 31"
    and "cfg_base + 0x04 \<notin> atu_regs (region_base dbi_base 1)"
  shows "\<exists>m' evs.
           pcie_enable_device (regfile_hw wmask) dbi_base cfg_base bar_phys m =
             (if bit (dev m' (cfg_base + 0x04)) 1 then 0 else - 1, m') \<and>
           trace m' = trace m @ evs \<and>
           reg_reads evs (cfg_base + 0x04) = [dev m (cfg_base + 0x04), dev m' (cfg_base + 0x04)] \<and>
           reg_written evs (cfg_base + 0x04) = Some (cmd_enable_word (dev m (cfg_base + 0x04))) \<and>
           dev m' (cfg_base + 0x04) =
             (cmd_enable_word (dev m (cfg_base + 0x04)) AND wmask (cfg_base + 0x04)) OR
             (dev m (cfg_base + 0x04) AND NOT (wmask (cfg_base + 0x04))) \<and>
           bit (cmd_enable_word (dev m (cfg_base + 0x04))) 0 \<and>
           bit (cmd_enable_word (dev m (cfg_base + 0x04))) 1 \<and>
           bit (cmd_enable_word (dev m (cfg_base + 0x04))) 2 \<and>
           \<not> bit (cmd_enable_word (dev m (cfg_base + 0x04))) 10 \<and>
           drop_bit 16 (cmd_enable_word (dev m (cfg_base + 0x04))) = drop_bit 16 (dev m (cfg_base + 0x04))"
proof -
  let ?H = "regfile_hw wmask"
  let ?A = "cfg_base + 0x04"
  let ?W = "cmd_enable_word (dev m ?A)"
  have c: "cfg_base + ucast (0x04 :: u32) = ?A" by simp
  have a: "cfg_base + ucast (0x04 :: u32) \<notin> atu_regs (region_base dbi_base 1)"
    using assms(2) by simp
  from cfg_read_regfile_accesses[where wmask = wmask and dbi = dbi_base and m = m and bar = bar_phys
      and rm = False, OF assms(1) a]
  obtain m1 e1 where
    r1: "pcie_config_read32 ?H dbi_base cfg_base bar_phys 0x04 False m = (dev m ?A, m1)"
    and d1: "dev m1 ?A = dev m ?A" and t1: "trace m1 = trace m @ e1"
    and w1: "reg_written e1 ?A = None" and k1: "reg_reads e1 ?A = [dev m ?A]"
    using assms(2) unfolding c by blast
  from cfg_write_regfile_accesses[where wmask = wmask and dbi = dbi_base and m = m1 and bar = bar_phys
      and v = ?W, OF assms(1) a]
  obtain m2 e2 where
    r2: "pcie_config_write32 ?H dbi_base cfg_base bar_phys 0x04 ?W False m1 = m2"
    and d2: "dev m2 ?A = (?W AND wmask ?A) OR (dev m1 ?A AND NOT (wmask ?A))"
    and t2: "trace m2 = trace m1 @ e2"
    and w2: "reg_written e2 ?A = Some ?W" and k2: "reg_reads e2 ?A = []"
    unfolding c by blast
  from cfg_read_regfile_accesses[where wmask = wmask and dbi = dbi_base and m = m2 and bar = bar_phys
      and rm = True, OF assms(1) a]
  obtain m3 e3 where
    r3: "pcie_config_read32 ?H dbi_base cfg_base bar_phys 0x04 True m2 = (dev m2 ?A, m3)"
    and d3: "dev m3 ?A = dev m2 ?A" and t3: "trace m3 = trace m2 @ e3"
    and w3: "reg_written e3 ?A = None" and k3: "reg_reads e3 ?A = [dev m2 ?A]"
    using assms(2) unfolding c by blast
  have res: "pcie_enable_device ?H dbi_base cfg_base bar_phys m =
      (if bit (dev m2 ?A) 1 then 0 else - 1, m3)"
  proof -
    have ew: "enable_cmd_reg (dev m ?A) = ?W"
      by (simp add: enable_cmd_reg_closed cmd_enable_word_def)
    show ?thesis
      by (simp add: pcie_enable_device_def Let_def r1 ew r2 r3 mem_enable_test)
  qed
  have bits: "bit ?W 0" "bit ?W 1" "bit ?W 2" "\<not> bit ?W 10" "drop_bit 16 ?W = drop_bit 16 (dev m ?A)"
    using enable_cmd_reg_bits[of "dev m ?A"]
    unfolding cmd_enable_word_def enable_cmd_reg_closed by blast+
  show ?thesis
    using res d1 d2 d3 t1 t2 t3 w1 w2 w3 k1 k2 k3 bits
    by (intro exI[of _ m3] exI[of _ "e1 @ e2 @ e3"])
      (simp add: reg_written_append reg_reads_append)
qed

theorem enable_device_accesses_witness:
  "bit (example_wmask (region_base 0xa40c00000 1 + 0x04)) 31 \<and>
   0xf3000000 + 0x04 \<notin> atu_regs (region_base 0xa40c00000 1) \<and>
   (\<exists>m' evs.
      pcie_enable_device (regfile_hw example_wmask) 0xa40c00000 0xf3000000 0xE0000000 example_regs = (0, m') \<and>
      trace m' = trace example_regs @ evs \<and>
      reg_reads evs (0xf3000000 + 0x04) = [0, 7] \<and>
      reg_written evs (0xf3000000 + 0x04) = Some 7 \<and>
      dev m' (0xf3000000 + 0x04) = 7) \<and>
   bit ((\<lambda>a. if a = 0xf3000004 then 0 else 0xFFFFFFFF :: u32) (region_base 0xa40c00000 1 + 0x04)) 31 \<and>
   (\<exists>m' evs.
      pcie_enable_device (regfile_hw (\<lambda>a. if a = 0xf3000004 then 0 else 0xFFFFFFFF)) 0xa40c00000 0xf3000000
        0xE0000000 example_regs = (- 1, m') \<and>
      trace m' = trace example_regs @ evs \<and>
      reg_reads evs (0xf3000000 + 0x04) = [0, 0] \<and>
      reg_written evs (0xf3000000 + 0x04) = Some 7 \<and>
      dev m' (0xf3000000 + 0x04) = 0)"
proof -
  let ?w2 = "\<lambda>a :: u64. if a = 0xf3000004 then 0 else 0xFFFFFFFF :: u32"
  have b31: "bit (0xFFFFFFFF :: u32) 31"
  proof -
    have "bit (- 1 :: u32) 31" by simp
    then show ?thesis by simp
  qed
  have h1: "bit (example_wmask (region_base 0xa40c00000 1 + 0x04)) 31"
    by (simp add: example_wmask_def region_base_def b31)
  have h1': "bit (?w2 (region_base 0xa40c00000 1 + 0x04)) 31"
    by (simp add: region_base_def b31)
  have h2: "(0xf3000000 :: u64) + 0x04 \<notin> atu_regs (region_base 0xa40c00000 1)"
    by (simp add: atu_regs_def region_base_def)
  have o: "dev example_regs (0xf3000000 + 0x04) = 0" by (simp add: example_regs_def)
  have w: "cmd_enable_word 0 = 7" by (simp add: cmd_enable_word_def)
  have m: "example_wmask (0xf3000000 + 0x04) = 0xFFFFFFFF" by (simp add: example_wmask_def)
  from enable_device_accesses[where wmask = example_wmask and dbi_base = "0xa40c00000"
      and cfg_base = "0xf3000000" and bar_phys = "0xE0000000" and m = example_regs, OF h1 h2]
  obtain m' evs where
    "pcie_enable_device (regfile_hw example_wmask) 0xa40c00000 0xf3000000 0xE0000000 example_regs =
       (if bit (dev m' (0xf3000000 + 0x04)) 1 then 0 else - 1, m')"
    "trace m' = trace example_regs @ evs"
    "reg_reads evs (0xf3000000 + 0x04) = [dev example_regs (0xf3000000 + 0x04), dev m' (0xf3000000 + 0x04)]"
    "reg_written evs (0xf3000000 + 0x04) = Some (cmd_enable_word (dev example_regs (0xf3000000 + 0x04)))"
    "dev m' (0xf3000000 + 0x04) =
       (cmd_enable_word (dev example_regs (0xf3000000 + 0x04)) AND example_wmask (0xf3000000 + 0x04)) OR
       (dev example_regs (0xf3000000 + 0x04) AND NOT (example_wmask (0xf3000000 + 0x04)))"
    by blast
  then have a: "\<exists>m' evs.
      pcie_enable_device (regfile_hw example_wmask) 0xa40c00000 0xf3000000 0xE0000000 example_regs = (0, m') \<and>
      trace m' = trace example_regs @ evs \<and>
      reg_reads evs (0xf3000000 + 0x04) = [0, 7] \<and>
      reg_written evs (0xf3000000 + 0x04) = Some 7 \<and>
      dev m' (0xf3000000 + 0x04) = 7"
    unfolding o w m by (intro exI[of _ m'] exI[of _ evs]) simp
  from enable_device_accesses[where wmask = ?w2 and dbi_base = "0xa40c00000"
      and cfg_base = "0xf3000000" and bar_phys = "0xE0000000" and m = example_regs, OF h1' h2]
  obtain m' evs where
    "pcie_enable_device (regfile_hw ?w2) 0xa40c00000 0xf3000000 0xE0000000 example_regs =
       (if bit (dev m' (0xf3000000 + 0x04)) 1 then 0 else - 1, m')"
    "trace m' = trace example_regs @ evs"
    "reg_reads evs (0xf3000000 + 0x04) = [dev example_regs (0xf3000000 + 0x04), dev m' (0xf3000000 + 0x04)]"
    "reg_written evs (0xf3000000 + 0x04) = Some (cmd_enable_word (dev example_regs (0xf3000000 + 0x04)))"
    "dev m' (0xf3000000 + 0x04) =
       (cmd_enable_word (dev example_regs (0xf3000000 + 0x04)) AND ?w2 (0xf3000000 + 0x04)) OR
       (dev example_regs (0xf3000000 + 0x04) AND NOT (?w2 (0xf3000000 + 0x04)))"
    by blast
  then have b: "\<exists>m' evs.
      pcie_enable_device (regfile_hw ?w2) 0xa40c00000 0xf3000000 0xE0000000 example_regs = (- 1, m') \<and>
      trace m' = trace example_regs @ evs \<and>
      reg_reads evs (0xf3000000 + 0x04) = [0, 0] \<and>
      reg_written evs (0xf3000000 + 0x04) = Some 7 \<and>
      dev m' (0xf3000000 + 0x04) = 0"
    unfolding o w by (intro exI[of _ m'] exI[of _ evs]) simp
  from h1 h2 a h1' b show ?thesis by (intro conjI)
qed

lemma setup_const0_trace:
  "\<exists>evs. trace (snd (dw_pcie_setup_atu (const_hw 0) dbi idx ty host bus sz m)) = trace m @ evs \<and>
     (\<forall>a. a \<notin> atu_regs (region_base dbi idx) \<longrightarrow> reg_reads evs a = [] \<and> reg_written evs a = None)"
proof -
  let ?rb = "region_base dbi idx"
  let ?P = "atu_program_events ?rb ty host bus sz"
  have n: "\<forall>d. \<not> bit (fst (hw_read32 (const_hw 0) (?rb + 4) d)) 31" by (simp add: const_hw_def)
  obtain m0 where m0: "dw_pcie_setup_atu (const_hw 0) dbi idx ty host bus sz m =
      atu_wait_enable (const_hw 0) (?rb + 4) 5 m0" and t0: "trace m0 = trace m @ ?P"
    unfolding setup_atu_unfold by simp
  from wait_enable_fail[OF n, where n = 5 and m = m0] obtain vs m' where
    w: "atu_wait_enable (const_hw 0) (?rb + 4) 5 m0 = (- 1, m')"
    "trace m' = trace m0 @ concat (map (atu_failed_poll ?rb) vs)"
    by blast
  show ?thesis
    using m0 t0 w
    by (intro exI[of _ "?P @ concat (map (atu_failed_poll ?rb) vs)"])
      (simp add: reg_reads_append reg_written_append program_events_no_reads program_events_outside
        failed_polls_outside)
qed

text \<open>
  C9, against the claim as stated: on hardware whose every register reads 0, so that
  the swing region never enables and memory-space-enable is clear, \<^verbatim>\<open>pcie_enable_device\<close>
  returns 0 (success) and its trace holds no read and no write of the command register.
\<close>

theorem enable_device_success_without_access:
  "fst (pcie_enable_device (const_hw 0) 0xa40c00000 0xf3000000 0 machine0) = 0 \<and>
   reg_reads (trace (snd (pcie_enable_device (const_hw 0) 0xa40c00000 0xf3000000 0 machine0))) 0xf3000004 = [] \<and>
   reg_written (trace (snd (pcie_enable_device (const_hw 0) 0xa40c00000 0xf3000000 0 machine0))) 0xf3000004 = None \<and>
   \<not> bit (fst (hw_read32 (const_hw 0) 0xf3000004 ())) 1"
proof -
  let ?s = "\<lambda>m :: unit machine. snd (dw_pcie_setup_atu (const_hw 0) 0xa40c00000 1 4 0xf3000000 0 0x100000 m)"
  have o: "(0xf3000004 :: u64) \<notin> atu_regs (region_base 0xa40c00000 1)"
    by (simp add: atu_regs_def region_base_def)
  have e: "pcie_enable_device (const_hw 0) 0xa40c00000 0xf3000000 0 machine0 = (0, ?s (?s (?s machine0)))"
    by (simp add: pcie_enable_device_def pcie_config_read32_def pcie_config_write32_def split_beta
        Let_def setup_const0)
  from setup_const0_trace[where dbi = "0xa40c00000" and idx = 1 and ty = 4 and host = "0xf3000000" and bus = 0
      and sz = "0x100000" and m = machine0] o obtain e1 where
    t1: "trace (?s machine0) = trace machine0 @ e1"
    and k1: "reg_reads e1 0xf3000004 = []" "reg_written e1 0xf3000004 = None"
    by blast
  from setup_const0_trace[where dbi = "0xa40c00000" and idx = 1 and ty = 4 and host = "0xf3000000" and bus = 0
      and sz = "0x100000" and m = "?s machine0"] o obtain e2 where
    t2: "trace (?s (?s machine0)) = trace (?s machine0) @ e2"
    and k2: "reg_reads e2 0xf3000004 = []" "reg_written e2 0xf3000004 = None"
    by blast
  from setup_const0_trace[where dbi = "0xa40c00000" and idx = 1 and ty = 4 and host = "0xf3000000" and bus = 0
      and sz = "0x100000" and m = "?s (?s machine0)"] o obtain e3 where
    t3: "trace (?s (?s (?s machine0))) = trace (?s (?s machine0)) @ e3"
    and k3: "reg_reads e3 0xf3000004 = []" "reg_written e3 0xf3000004 = None"
    by blast
  have t0: "trace machine0 = []" by (simp add: machine0_def)
  have r: "\<not> bit (fst (hw_read32 (const_hw 0) 0xf3000004 ())) 1" by (simp add: const_hw_def)
  show ?thesis
    unfolding e using r
    by (simp add: t0 t1 t2 t3 k1 k2 k3 reg_reads_append reg_written_append)
qed

subsection \<open>Descriptor rings\<close>

lemma memcpy_local_eq:
  "memcpy_local dst d src s n = (\<lambda>i. if d \<le> i \<and> i < d + n then src (s + (i - d)) else dst i)"
proof (induction n arbitrary: dst d s)
  case 0
  show ?case by (rule ext) auto
next
  case (Suc n)
  show ?case unfolding memcpy_local.simps Suc.IH
    by (rule ext) (auto intro!: arg_cong[where f = src])
qed

lemma memset_local_eq:
  "memset_local dst d val n = (\<lambda>i. if d \<le> i \<and> i < d + n then val else dst i)"
proof (induction n arbitrary: dst d)
  case 0
  show ?case by (rule ext) auto
next
  case (Suc n)
  show ?case unfolding memset_local.simps Suc.IH by (rule ext) auto
qed

lemma own_bit_test: "(v AND (0x80000000::u32) = 0) = (\<not> bit v 31)"
  using enable_bit_test[of v] by blast

lemma err_bit_test: "(v AND (0x00200000::u32) \<noteq> 0) = bit v 21"
proof -
  have "(0x00200000::u32) = 2 ^ 21" by simp
  then show ?thesis using and_exp_eq_0_iff_not_bit[of v 21] by (simp del: power_numeral)
qed

lemma invalidate_frame:
  "rx_idx (invalidate_dcache_va_range h obj s) = rx_idx s"
  "tx_idx (invalidate_dcache_va_range h obj s) = tx_idx s"
  "rx_ring (invalidate_dcache_va_range h obj s) = rx_ring s"
  "rx_buffers (invalidate_dcache_va_range h obj s) = rx_buffers s"
  by (simp_all add: invalidate_dcache_va_range_def split_beta)

lemma udelay_frame:
  "rx_idx (udelay h us s) = rx_idx s" "tx_idx (udelay h us s) = tx_idx s"
  "mem (udelay h us s) = mem s"
  by (simp_all add: udelay_def)

lemma rx_wait_idx: "rx_idx (rx_wait h n s) = rx_idx s"
  by (induction n arbitrary: s) (simp_all add: Let_def invalidate_frame udelay_frame)

lemma tx_wait_idx: "tx_idx (tx_wait h n s) = tx_idx s"
  by (induction n arbitrary: s) (simp_all add: Let_def invalidate_frame udelay_frame)

lemma reinit_desc_idx: "rx_idx (reinit_desc s) = (rx_idx s + 1) mod 4"
  by (simp add: reinit_desc_def Let_def set_rx_desc_def clean_dcache_va_range_def)

lemma reinit_desc_status:
  "status (rx_desc (mem (reinit_desc s)) (rx_idx s)) = (if rx_idx s = 3 then 0xC0000800 else 0x80000800)"
  by (simp add: reinit_desc_def Let_def set_rx_desc_def clean_dcache_va_range_def)

lemma rearm_bits:
  "bit (0xC0000800 :: u32) 31" "bit (0xC0000800 :: u32) 30" "(0xC0000800 :: u32) AND 0x3FFF = 2048"
  "bit (0x80000800 :: u32) 31" "\<not> bit (0x80000800 :: u32) 30" "(0x80000800 :: u32) AND 0x3FFF = 2048"
  by simp_all

lemma unat_succ_mod4: "unat ((x + 1) mod 4 :: u32) = (unat x + 1) mod 4"
proof -
  have "unat ((x + 1) mod 4) = unat (x + 1) mod 4" by (simp add: unat_mod)
  also have "unat (x + 1) = (unat x + 1) mod 2 ^ 32" by (simp add: unat_word_ariths)
  also have "(unat x + 1) mod 2 ^ 32 mod 4 = (unat x + 1) mod 4"
    by (rule mod_mod_cancel) simp
  finally show ?thesis .
qed

text \<open>
  C4. Whenever \<^verbatim>\<open>rtl8125_recv_packet\<close> returns 0, as it does on the paths where the
  ownership of the current slot was obtained (payload copied, or error flag set and
  payload skipped): the status of that slot has the ownership bit (bit 31) set
  and the capacity 2048 in its length field, has the end-of-ring flag (bit 30) set if
  and only if the slot is slot 3, the last of the four, and the receive index has moved
  to the next slot modulo 4.
\<close>

theorem recv_rearms_slot:
  assumes "rtl8125_recv_packet h buffer len timeout_ms s = (0, buffer', len', s')"
  shows "bit (status (rx_desc (mem s') (rx_idx s))) 31 \<and>
         status (rx_desc (mem s') (rx_idx s)) AND 0x3FFF = 2048 \<and>
         (bit (status (rx_desc (mem s') (rx_idx s))) 30 \<longleftrightarrow> rx_idx s = 3) \<and>
         rx_idx s' = (rx_idx s + 1) mod 4 \<and>
         unat (rx_idx s') = (unat (rx_idx s) + 1) mod 4"
proof -
  let ?s1 = "rx_wait h (unat (timeout_ms * 100)) s"
  from assms have "s' = reinit_desc ?s1 \<or>
      s' = reinit_desc (invalidate_dcache_va_range h (RxBuf (rx_idx ?s1)) ?s1)"
    by (auto simp add: rtl8125_recv_packet_def Let_def split: if_splits)
  then obtain s2 where s': "s' = reinit_desc s2" and i: "rx_idx s2 = rx_idx s"
    by (auto simp add: rx_wait_idx invalidate_frame)
  show ?thesis
    unfolding s' using reinit_desc_status[of s2] reinit_desc_idx[of s2] unat_succ_mod4[of "rx_idx s"]
    by (simp add: i rearm_bits)
qed

lemma rx_wait_first:
  "\<not> bit (status (rx_desc (mem (invalidate_dcache_va_range h (RxDesc (rx_idx s)) s)) (rx_idx s))) 31 \<Longrightarrow>
     rx_wait h (Suc n) s = invalidate_dcache_va_range h (RxDesc (rx_idx s)) s"
  by (simp add: Let_def invalidate_frame own_bit_test)

lemma nic_hw_polled:
  assumes "\<not> bit st 31"
  shows "rx_polled (nic_hw st p) 1 s = invalidate_dcache_va_range (nic_hw st p) (RxDesc (rx_idx s)) s"
proof -
  have u: "unat (1 * 100 :: u32) = Suc 99" by simp
  have c: "\<not> bit (status (rx_desc (mem (invalidate_dcache_va_range (nic_hw st p) (RxDesc (rx_idx s)) s))
             (rx_idx s))) 31"
    using assms by (simp add: invalidate_dcache_va_range_def nic_hw_def)
  show ?thesis unfolding rx_polled_def u by (rule rx_wait_first[OF c])
qed

lemma nic_hw_seen: "\<not> bit st 31 \<Longrightarrow> rx_seen (nic_hw st p) 1 s = st"
  by (simp add: rx_seen_def nic_hw_polled) (simp add: invalidate_dcache_va_range_def nic_hw_def)

lemma recv_unfold:
  "rtl8125_recv_packet h buffer len timeout_ms s =
     (if rx_ring s = 0 \<or> rx_buffers s (rx_idx s) = 0 then (- 1, buffer, len, s)
      else if bit (rx_seen h timeout_ms s) 31 then (- 1, buffer, len, rx_polled h timeout_ms s)
      else if bit (rx_seen h timeout_ms s) 21
      then (0, buffer, len, reinit_desc (rx_polled h timeout_ms s))
      else
        let pkt_len = (if (rx_seen h timeout_ms s AND 0x3FFF) - 4 > 2048 then 2048
                       else (rx_seen h timeout_ms s AND 0x3FFF) - 4);
            s2 = invalidate_dcache_va_range h (RxBuf (rx_idx s)) (rx_polled h timeout_ms s)
        in (0, memcpy_local buffer 0 (rx_buf (mem s2) (rx_idx s)) 0 (unat pkt_len), pkt_len,
            reinit_desc s2))"
  by (simp add: rtl8125_recv_packet_def rx_seen_def rx_polled_def Let_def rx_wait_idx
      invalidate_frame enable_bit_test err_bit_test)

theorem recv_rearms_slot_witness:
  "\<exists>buffer' len' s'.
     rtl8125_recv_packet (nic_hw 0x40 (\<lambda>j. 0x55)) (\<lambda>j. 0) 0 1 nic0 = (0, buffer', len', s') \<and>
     bit (status (rx_desc (mem s') (rx_idx nic0))) 31 \<and>
     status (rx_desc (mem s') (rx_idx nic0)) AND 0x3FFF = 2048 \<and>
     (bit (status (rx_desc (mem s') (rx_idx nic0))) 30 \<longleftrightarrow> rx_idx nic0 = 3) \<and>
     rx_idx s' = (rx_idx nic0 + 1) mod 4 \<and>
     unat (rx_idx s') = (unat (rx_idx nic0) + 1) mod 4"
proof -
  have "fst (rtl8125_recv_packet (nic_hw 0x40 (\<lambda>j. 0x55)) (\<lambda>j. 0) 0 1 nic0) = 0"
    by (simp add: recv_unfold nic_hw_seen Let_def) (simp add: nic0_def)
  then obtain buffer' len' s' where
    e: "rtl8125_recv_packet (nic_hw 0x40 (\<lambda>j. 0x55)) (\<lambda>j. 0) 0 1 nic0 = (0, buffer', len', s')"
    by (metis prod.collapse)
  from recv_rearms_slot[OF e] e show ?thesis by blast
qed

text \<open>
  C8. When the status word seen after the poll has the ownership bit clear and the
  error flag (bit 21) set, \<^verbatim>\<open>rtl8125_recv_packet\<close> returns 0, the success code of a
  normal receive, with the caller's buffer and \<^verbatim>\<open>*len\<close> as they were passed in; the
  slot is re-armed as device-owned and the index advanced, and the only event after the
  poll is the clean of the descriptor: the receive buffer is not invalidated or read.
\<close>

theorem recv_error_flagged:
  assumes "rx_ring s \<noteq> 0" and "rx_buffers s (rx_idx s) \<noteq> 0"
    and "\<not> bit (rx_seen h timeout_ms s) 31" and "bit (rx_seen h timeout_ms s) 21"
  shows "rtl8125_recv_packet h buffer len timeout_ms s =
           (0, buffer, len, reinit_desc (rx_polled h timeout_ms s)) \<and>
         bit (status (rx_desc (mem (reinit_desc (rx_polled h timeout_ms s))) (rx_idx s))) 31 \<and>
         rx_idx (reinit_desc (rx_polled h timeout_ms s)) = (rx_idx s + 1) mod 4 \<and>
         trace (reinit_desc (rx_polled h timeout_ms s)) =
           trace (rx_polled h timeout_ms s) @ [Clean (RxDesc (rx_idx s))]"
proof -
  have i: "rx_idx (rx_polled h timeout_ms s) = rx_idx s" by (simp add: rx_polled_def rx_wait_idx)
  have t: "trace (reinit_desc s1) = trace s1 @ [Clean (RxDesc (rx_idx s1))]" for s1 :: "'a rtl8125"
    by (simp add: reinit_desc_def Let_def set_rx_desc_def clean_dcache_va_range_def)
  show ?thesis
    using assms reinit_desc_status[of "rx_polled h timeout_ms s"] reinit_desc_idx[of "rx_polled h timeout_ms s"]
    by (simp add: recv_unfold i t rearm_bits)
qed

theorem recv_error_flagged_witness:
  "rx_ring nic0 \<noteq> 0 \<and> rx_buffers nic0 (rx_idx nic0) \<noteq> 0 \<and>
   \<not> bit (rx_seen (nic_hw 0x00200040 (\<lambda>j. 0x55)) 1 nic0) 31 \<and>
   bit (rx_seen (nic_hw 0x00200040 (\<lambda>j. 0x55)) 1 nic0) 21 \<and>
   rtl8125_recv_packet (nic_hw 0x00200040 (\<lambda>j. 0x55)) (\<lambda>j. 0) 7 1 nic0 =
     (0, (\<lambda>j. 0), 7, reinit_desc (rx_polled (nic_hw 0x00200040 (\<lambda>j. 0x55)) 1 nic0)) \<and>
   bit (status (rx_desc (mem (reinit_desc (rx_polled (nic_hw 0x00200040 (\<lambda>j. 0x55)) 1 nic0))) (rx_idx nic0))) 31 \<and>
   rx_idx (reinit_desc (rx_polled (nic_hw 0x00200040 (\<lambda>j. 0x55)) 1 nic0)) = (rx_idx nic0 + 1) mod 4 \<and>
   trace (reinit_desc (rx_polled (nic_hw 0x00200040 (\<lambda>j. 0x55)) 1 nic0)) =
     trace (rx_polled (nic_hw 0x00200040 (\<lambda>j. 0x55)) 1 nic0) @ [Clean (RxDesc (rx_idx nic0))]"
proof -
  have h1: "rx_ring nic0 \<noteq> 0" and h2: "rx_buffers nic0 (rx_idx nic0) \<noteq> 0"
    by (simp_all add: nic0_def)
  have h3: "\<not> bit (rx_seen (nic_hw 0x00200040 (\<lambda>j. 0x55)) 1 nic0) 31"
    and h4: "bit (rx_seen (nic_hw 0x00200040 (\<lambda>j. 0x55)) 1 nic0) 21"
    by (simp_all add: nic_hw_seen)
  from recv_error_flagged[OF h1 h2 h3 h4, of "\<lambda>j. 0" 7] h1 h2 h3 h4 show ?thesis by blast
qed

lemma memcpy_local_0:
  "memcpy_local dst 0 src 0 n = (\<lambda>i. if i < n then src i else dst i)"
  unfolding memcpy_local_eq by (rule ext) simp

lemma clamp_len:
  fixes x :: u32
  shows "unat (if x - 4 > 2048 then 2048 else x - 4) = min 2048 (unat (x - 4))"
    and "4 \<le> unat x \<Longrightarrow> unat (if x - 4 > 2048 then 2048 else x - 4) = min 2048 (unat x - 4)"
proof -
  show a: "unat (if x - 4 > 2048 then 2048 else x - 4) = min 2048 (unat (x - 4))"
    by (simp add: word_less_nat_alt min_def)
  assume "4 \<le> unat x"
  then have "(4 :: u32) \<le> x" by (simp add: word_le_nat_alt)
  then have "unat (x - 4) = unat x - 4" by (simp add: unat_sub)
  with a show "unat (if x - 4 > 2048 then 2048 else x - 4) = min 2048 (unat x - 4)" by simp
qed

text \<open>
  The length and the copy of a receive whose status word has the ownership bit and the
  error flag clear: the length is the low 14 bits of the status word minus 4 as a 32-bit
  unsigned difference, clamped to 2048, which is the integer difference clamped to 2048
  when the length field is at least 4; that many bytes of the slot's receive buffer are
  copied to the start of the caller's buffer.
\<close>

lemma recv_payload:
  assumes "rx_ring s \<noteq> 0" and "rx_buffers s (rx_idx s) \<noteq> 0"
    and "\<not> bit (rx_seen h timeout_ms s) 31" and "\<not> bit (rx_seen h timeout_ms s) 21"
  shows "\<exists>L s'.
           rtl8125_recv_packet h buffer len timeout_ms s =
             (0,
              (\<lambda>i. if i < unat L
                   then rx_buf (mem (invalidate_dcache_va_range h (RxBuf (rx_idx s))
                                 (rx_polled h timeout_ms s))) (rx_idx s) i
                   else buffer i),
              L, s') \<and>
           unat L = min 2048 (unat ((rx_seen h timeout_ms s AND 0x3FFF) - 4)) \<and>
           (4 \<le> unat (rx_seen h timeout_ms s AND 0x3FFF) \<longrightarrow>
              unat L = min 2048 (unat (rx_seen h timeout_ms s AND 0x3FFF) - 4))"
proof -
  let ?x = "rx_seen h timeout_ms s AND 0x3FFF"
  let ?L = "if ?x - 4 > 2048 then 2048 else ?x - 4"
  let ?s2 = "invalidate_dcache_va_range h (RxBuf (rx_idx s)) (rx_polled h timeout_ms s)"
  have "rtl8125_recv_packet h buffer len timeout_ms s =
      (0, (\<lambda>i. if i < unat ?L then rx_buf (mem ?s2) (rx_idx s) i else buffer i), ?L, reinit_desc ?s2)"
    using assms by (simp add: recv_unfold Let_def memcpy_local_0)
  then show ?thesis
    using clamp_len[of ?x] by (intro exI[of _ ?L] exI[of _ "reinit_desc ?s2"]) simp
qed

lemma recv_payload_example:
  "rx_ring nic0 \<noteq> 0 \<and> rx_buffers nic0 (rx_idx nic0) \<noteq> 0 \<and>
   \<not> bit (rx_seen (nic_hw 0x40 (\<lambda>j. 0x55)) 1 nic0) 31 \<and>
   \<not> bit (rx_seen (nic_hw 0x40 (\<lambda>j. 0x55)) 1 nic0) 21 \<and>
   (\<exists>L s'.
      rtl8125_recv_packet (nic_hw 0x40 (\<lambda>j. 0x55)) (\<lambda>j. 0) 0 1 nic0 =
        (0,
         (\<lambda>i. if i < unat L
              then rx_buf (mem (invalidate_dcache_va_range (nic_hw 0x40 (\<lambda>j. 0x55)) (RxBuf (rx_idx nic0))
                            (rx_polled (nic_hw 0x40 (\<lambda>j. 0x55)) 1 nic0))) (rx_idx nic0) i
              else 0),
         L, s') \<and>
      unat L = 60)"
proof -
  have h1: "rx_ring nic0 \<noteq> 0" and h2: "rx_buffers nic0 (rx_idx nic0) \<noteq> 0"
    by (simp_all add: nic0_def)
  have h3: "\<not> bit (rx_seen (nic_hw 0x40 (\<lambda>j. 0x55)) 1 nic0) 31"
    and h4: "\<not> bit (rx_seen (nic_hw 0x40 (\<lambda>j. 0x55)) 1 nic0) 21"
    by (simp_all add: nic_hw_seen)
  have v: "min 2048 (unat ((rx_seen (nic_hw 0x40 (\<lambda>j. 0x55)) 1 nic0 AND 0x3FFF) - 4)) = 60"
    by (simp add: nic_hw_seen)
  from recv_payload[OF h1 h2 h3 h4, of "\<lambda>j. 0" 0] obtain L s' where
    "rtl8125_recv_packet (nic_hw 0x40 (\<lambda>j. 0x55)) (\<lambda>j. 0) 0 1 nic0 =
        (0,
         (\<lambda>i. if i < unat L
              then rx_buf (mem (invalidate_dcache_va_range (nic_hw 0x40 (\<lambda>j. 0x55)) (RxBuf (rx_idx nic0))
                            (rx_polled (nic_hw 0x40 (\<lambda>j. 0x55)) 1 nic0))) (rx_idx nic0) i
              else 0),
         L, s')"
    and "unat L = min 2048 (unat ((rx_seen (nic_hw 0x40 (\<lambda>j. 0x55)) 1 nic0 AND 0x3FFF) - 4))"
    by blast
  with v h1 h2 h3 h4 show ?thesis by (intro conjI exI[of _ L] exI[of _ s']) simp_all
qed

text \<open>
  C7. The claim is that a receive without error flag returns the length field minus the
  4 bytes of the frame check sequence, clamped to the buffer capacity, and copies that
  many bytes. The code subtracts in 32 bits without a guard: for a status word with the
  ownership bit and the error flag clear and a length field of 2 the difference wraps,
  the clamp makes it 2048, and the call returns length 2048 and copies 2048 bytes of the
  receive buffer.
\<close>

theorem recv_short_frame_wraps:
  "rx_seen (nic_hw 0x2 (\<lambda>j. 0x55)) 1 nic0 = 0x2 \<and>
   fst (rtl8125_recv_packet (nic_hw 0x2 (\<lambda>j. 0x55)) (\<lambda>j. 0) 0 1 nic0) = 0 \<and>
   fst (snd (snd (rtl8125_recv_packet (nic_hw 0x2 (\<lambda>j. 0x55)) (\<lambda>j. 0) 0 1 nic0))) = 2048 \<and>
   fst (snd (rtl8125_recv_packet (nic_hw 0x2 (\<lambda>j. 0x55)) (\<lambda>j. 0) 0 1 nic0)) =
     (\<lambda>i. if i < 2048 then 0x55 else 0)"
proof -
  have s: "rx_seen (nic_hw 0x2 (\<lambda>j. 0x55)) 1 nic0 = 0x2" by (simp add: nic_hw_seen)
  have r: "rx_ring nic0 \<noteq> 0" "rx_buffers nic0 (rx_idx nic0) \<noteq> 0" by (simp_all add: nic0_def)
  have b: "rx_buf (mem (invalidate_dcache_va_range (nic_hw 0x2 (\<lambda>j. 0x55)) obj s')) i = (\<lambda>j. 0x55)"
    for obj i and s' :: "unit rtl8125"
    by (simp add: invalidate_dcache_va_range_def nic_hw_def)
  show ?thesis
    using r by (simp add: recv_unfold s Let_def memcpy_local_0 b cong: if_cong)
qed

lemma elapsed_us_append: "elapsed_us (xs @ ys) = elapsed_us xs + elapsed_us ys"
  by (induction xs rule: elapsed_us.induct) simp_all

lemma rx_wait_never:
  assumes "\<forall>mem d. bit (status (rx_desc (fst (hw_dma h mem d)) (rx_idx s))) 31"
  shows "elapsed_us (trace (rx_wait h n s)) = elapsed_us (trace s) + 10 * n \<and>
         (0 < n \<longrightarrow> bit (status (rx_desc (mem (rx_wait h n s)) (rx_idx s))) 31) \<and>
         (\<exists>evs. trace (rx_wait h n s) = trace s @ evs \<and> (\<forall>e \<in> set evs. \<not> is_write e))"
  using assms
proof (induction n arbitrary: s)
  case 0
  then show ?case by simp
next
  case (Suc n)
  let ?s1 = "invalidate_dcache_va_range h (RxDesc (rx_idx s)) s"
  let ?s2 = "udelay h 10 ?s1"
  have o: "bit (status (rx_desc (mem ?s1) (rx_idx s))) 31"
    using Suc.prems by (simp add: invalidate_dcache_va_range_def split_beta)
  have i2: "rx_idx ?s2 = rx_idx s" by (simp add: udelay_frame invalidate_frame)
  have m2: "mem ?s2 = mem ?s1" by (simp add: udelay_frame)
  have t2: "trace ?s2 = trace s @ [Invalidate (RxDesc (rx_idx s)), Delay 10]"
    by (simp add: udelay_def invalidate_dcache_va_range_def split_beta)
  have u: "rx_wait h (Suc n) s = rx_wait h n ?s2"
    using o by (simp add: Let_def invalidate_frame own_bit_test)
  from Suc.IH[of ?s2] Suc.prems obtain evs where
    a: "elapsed_us (trace (rx_wait h n ?s2)) = elapsed_us (trace ?s2) + 10 * n"
    and b: "0 < n \<longrightarrow> bit (status (rx_desc (mem (rx_wait h n ?s2)) (rx_idx s))) 31"
    and c: "trace (rx_wait h n ?s2) = trace ?s2 @ evs" "\<forall>e \<in> set evs. \<not> is_write e"
    by (auto simp add: i2)
  have b': "bit (status (rx_desc (mem (rx_wait h n ?s2)) (rx_idx s))) 31"
    using b o m2 by (cases n) simp_all
  show ?case
    unfolding u using a b' c t2
    by (intro conjI exI[of _ "[Invalidate (RxDesc (rx_idx s)), Delay 10] @ evs"])
      (simp_all add: elapsed_us_append)
qed

text \<open>
  The wait of \<^verbatim>\<open>rtl8125_recv_packet\<close> where \<^verbatim>\<open>timeout_ms * 100\<close> does not overflow 32
  bits: if the slot is device-owned and stays so, the call returns \<open>-1\<close> with the buffer,
  the length and the index untouched, after register-write-free polls whose delays add
  up to \<open>timeout_ms\<close> milliseconds.
\<close>

lemma recv_timeout_in_range:
  assumes "rx_ring s \<noteq> 0" and "rx_buffers s (rx_idx s) \<noteq> 0"
    and "bit (status (rx_desc (mem s) (rx_idx s))) 31"
    and "\<forall>mem d. bit (status (rx_desc (fst (hw_dma h mem d)) (rx_idx s))) 31"
    and "unat timeout_ms * 100 < 2 ^ 32"
  shows "\<exists>s' evs. rtl8125_recv_packet h buffer len timeout_ms s = (- 1, buffer, len, s') \<and>
           rx_idx s' = rx_idx s \<and> trace s' = trace s @ evs \<and> (\<forall>e \<in> set evs. \<not> is_write e) \<and>
           elapsed_us evs = 1000 * unat timeout_ms"
proof -
  let ?n = "unat (timeout_ms * 100)"
  have n: "?n = unat timeout_ms * 100"
    using assms(5) by (simp add: unat_word_ariths)
  from rx_wait_never[OF assms(4), of ?n] obtain evs where
    a: "elapsed_us (trace (rx_wait h ?n s)) = elapsed_us (trace s) + 10 * ?n"
    and b: "0 < ?n \<longrightarrow> bit (status (rx_desc (mem (rx_wait h ?n s)) (rx_idx s))) 31"
    and c: "trace (rx_wait h ?n s) = trace s @ evs" "\<forall>e \<in> set evs. \<not> is_write e"
    by auto
  have o: "bit (rx_seen h timeout_ms s) 31"
    using b assms(3) by (cases "?n") (simp_all add: rx_seen_def rx_polled_def)
  have e: "elapsed_us evs = 1000 * unat timeout_ms"
    using a c n by (simp add: elapsed_us_append)
  show ?thesis
    using assms(1,2) o c e
    by (intro exI[of _ "rx_polled h timeout_ms s"] exI[of _ evs])
      (simp add: recv_unfold rx_polled_def rx_wait_idx)
qed

text \<open>
  C6. The claim is that, with a slot whose ownership bit never clears, the no-packet
  error comes only at or after the requested timeout. The code computes the number of
  polls as \<^verbatim>\<open>timeout_ms * 100\<close> in 32 bits: for a request of \<open>0x40000000\<close> milliseconds
  the product is 0, and on a device-owned slot (hardware that never touches the ring)
  the call returns \<open>-1\<close> at once, with the driver state unchanged and no delay in the
  trace.
\<close>

theorem recv_timeout_overflow:
  "rtl8125_recv_packet (const_hw 0) (\<lambda>j. 0) 0 0x40000000 nic0 = (- 1, (\<lambda>j. 0), 0, nic0) \<and>
   elapsed_us (trace nic0) = 0 \<and>
   bit (status (rx_desc (mem nic0) (rx_idx nic0))) 31"
proof -
  have p: "rx_polled (const_hw 0) 0x40000000 nic0 = nic0" by (simp add: rx_polled_def)
  have b: "bit (status (rx_desc (mem nic0) (rx_idx nic0))) 31" by (simp add: nic0_def)
  have r: "rx_ring nic0 \<noteq> 0" "rx_buffers nic0 (rx_idx nic0) \<noteq> 0" by (simp_all add: nic0_def)
  have t: "elapsed_us (trace nic0) = 0" by (simp add: nic0_def)
  show ?thesis using b r t by (simp add: recv_unfold rx_seen_def p)
qed

lemma pad_len_bits:
  fixes p :: u32
  assumes "p \<le> 2048"
  shows "bit (0xB0000000 OR p) 31" "bit (0xB0000000 OR p) 29" "bit (0xB0000000 OR p) 28"
    "\<not> bit (0xB0000000 OR p) 30" "(0xB0000000 OR p) AND 0x3FFF = p"
proof -
  have m: "(0x3FFF :: u32) = mask 14" by (simp add: mask_eq_exp_minus_1)
  have "p < 2 ^ 14" using assms by (simp add: word_le_nat_alt word_less_nat_alt)
  then have pm: "p AND mask 14 = p" by (rule less_mask_eq)
  then have hi: "\<not> bit p n" if "14 \<le> n" for n
    using that by (metis bit_and_iff bit_mask_iff not_le)
  show "bit (0xB0000000 OR p) 31" "bit (0xB0000000 OR p) 29" "bit (0xB0000000 OR p) 28"
    by (simp_all add: bit_or_iff)
  show "\<not> bit (0xB0000000 OR p) 30" using hi[of 30] by (simp add: bit_or_iff)
  have "(0xB0000000 OR p) AND mask 14 = (0xB0000000 AND mask 14) OR (p AND mask 14)"
    by (simp add: bit.conj_disj_distrib2)
  also have "(0xB0000000 :: u32) AND mask 14 = 0" unfolding m[symmetric] by simp
  finally show "(0xB0000000 OR p) AND 0x3FFF = p" using pm by (simp add: m)
qed

lemma tx_submit_frame:
  "tx_idx (tx_submit h data len s) = tx_idx s"
  "trace (tx_submit h data len s) =
     trace s @ [Clean (TxBuf (tx_idx s)), Clean (TxDesc (tx_idx s)), Write8 (rtl_mmio_base s + 0x90) 1]"
  by (simp_all add: tx_submit_def Let_def set_tx_buf_def set_tx_desc_def clean_dcache_va_range_def
      rtl_write8_def write8_def split_beta)

lemma tx_submit_status:
  "status (tx_desc (mem (tx_submit h data len s)) (tx_idx s)) =
     0xB0000000 OR (if len < 60 then 60 else len)"
proof -
  have c: "0x80000000 OR (0x20000000 OR (0x10000000 OR x)) = 0xB0000000 OR x" for x :: u32
    by (simp add: or.assoc[symmetric])
  show ?thesis
    by (simp add: tx_submit_def Let_def set_tx_buf_def set_tx_desc_def clean_dcache_va_range_def
        rtl_write8_def write8_def split_beta c)
qed

lemma tx_submit_buf:
  "tx_buf (mem (tx_submit h data len s)) (tx_idx s) =
     (\<lambda>j. if j < unat len then data j else if j < 60 then 0 else tx_buf (mem s) (tx_idx s) j)"
proof -
  have u: "len < 60 \<Longrightarrow> unat len + unat (60 - len) = 60"
    by (simp add: word_less_nat_alt unat_sub word_le_nat_alt)
  have n: "\<not> len < 60 \<Longrightarrow> j < 60 \<Longrightarrow> j < unat len" for j
    by (simp add: word_less_nat_alt)
  show ?thesis
    apply (rule ext)
    apply (cases "len < 60")
     apply (simp add: tx_submit_def Let_def set_tx_buf_def set_tx_desc_def clean_dcache_va_range_def
        rtl_write8_def write8_def memcpy_local_0 memset_local_eq u)
    apply (simp add: tx_submit_def Let_def set_tx_buf_def set_tx_desc_def clean_dcache_va_range_def
        rtl_write8_def write8_def memcpy_local_0 n)
    done
qed

lemma send_unfold:
  "rtl8125_send_packet h data len s =
     (if tx_ring s = 0 \<or> tx_buffers s (tx_idx s) = 0 then (- 1, s)
      else if len > 2048 then (- 1, s)
      else
        let s2 = tx_wait h 10000 (tx_submit h data len s)
        in if bit (status (tx_desc (mem s2) (tx_idx s))) 31 then (- 1, s2)
           else (0, s2\<lparr>tx_idx := (tx_idx s + 1) mod 4\<rparr>))"
  by (simp add: rtl8125_send_packet_def Let_def tx_wait_idx tx_submit_frame enable_bit_test)

text \<open>
  C5. \<^verbatim>\<open>rtl8125_send_packet\<close> with a length above 2048 returns \<open>-1\<close> and leaves the
  driver and the trace as they were. With an initialised ring and a length \<open>L\<close> of at
  most 2048, at the write of the transmit-poll register the buffer of the current slot
  holds the \<open>L\<close> payload bytes, then zeros up to byte 60 when \<open>L < 60\<close>, then its old
  contents; the slot's status has bits 31 (device-owned), 29 (start of packet) and 28
  (end of packet) set and the padded length in its low 14 bits; the buffer and the
  descriptor have been cleaned, in that order, before the register write. The call then
  polls, returns \<open>-1\<close> if the slot is still device-owned, and otherwise returns 0 with the
  transmit index advanced by one modulo 4.
\<close>

theorem send_packet_spec:
  "(len > 2048 \<longrightarrow> rtl8125_send_packet h data len s = (- 1, s)) \<and>
   (tx_ring s \<noteq> 0 \<and> tx_buffers s (tx_idx s) \<noteq> 0 \<and> len \<le> 2048 \<longrightarrow>
      tx_buf (mem (tx_submit h data len s)) (tx_idx s) =
        (\<lambda>j. if j < unat len then data j else if j < 60 then 0 else tx_buf (mem s) (tx_idx s) j) \<and>
      status (tx_desc (mem (tx_submit h data len s)) (tx_idx s)) =
        0xB0000000 OR (if len < 60 then 60 else len) \<and>
      bit (status (tx_desc (mem (tx_submit h data len s)) (tx_idx s))) 31 \<and>
      bit (status (tx_desc (mem (tx_submit h data len s)) (tx_idx s))) 29 \<and>
      bit (status (tx_desc (mem (tx_submit h data len s)) (tx_idx s))) 28 \<and>
      status (tx_desc (mem (tx_submit h data len s)) (tx_idx s)) AND 0x3FFF =
        (if len < 60 then 60 else len) \<and>
      trace (tx_submit h data len s) =
        trace s @ [Clean (TxBuf (tx_idx s)), Clean (TxDesc (tx_idx s)),
                   Write8 (rtl_mmio_base s + 0x90) 1] \<and>
      rtl8125_send_packet h data len s =
        (let s2 = tx_wait h 10000 (tx_submit h data len s)
         in if bit (status (tx_desc (mem s2) (tx_idx s))) 31 then (- 1, s2)
            else (0, s2\<lparr>tx_idx := (tx_idx s + 1) mod 4\<rparr>)) \<and>
      (fst (rtl8125_send_packet h data len s) = 0 \<longrightarrow>
         tx_idx (snd (rtl8125_send_packet h data len s)) = (tx_idx s + 1) mod 4))"
proof (intro conjI impI)
  assume "len > 2048"
  then show "rtl8125_send_packet h data len s = (- 1, s)" by (simp add: send_unfold)
next
  assume a: "tx_ring s \<noteq> 0 \<and> tx_buffers s (tx_idx s) \<noteq> 0 \<and> len \<le> 2048"
  then have p: "(if len < 60 then 60 else len) \<le> (2048 :: u32)" by simp
  show "tx_buf (mem (tx_submit h data len s)) (tx_idx s) =
        (\<lambda>j. if j < unat len then data j else if j < 60 then 0 else tx_buf (mem s) (tx_idx s) j)"
    by (rule tx_submit_buf)
  show "status (tx_desc (mem (tx_submit h data len s)) (tx_idx s)) =
        0xB0000000 OR (if len < 60 then 60 else len)"
    by (rule tx_submit_status)
  show "bit (status (tx_desc (mem (tx_submit h data len s)) (tx_idx s))) 31"
    "bit (status (tx_desc (mem (tx_submit h data len s)) (tx_idx s))) 29"
    "bit (status (tx_desc (mem (tx_submit h data len s)) (tx_idx s))) 28"
    "status (tx_desc (mem (tx_submit h data len s)) (tx_idx s)) AND 0x3FFF =
        (if len < 60 then 60 else len)"
    unfolding tx_submit_status using pad_len_bits[OF p] by blast+
  show "trace (tx_submit h data len s) =
        trace s @ [Clean (TxBuf (tx_idx s)), Clean (TxDesc (tx_idx s)),
                   Write8 (rtl_mmio_base s + 0x90) 1]"
    by (rule tx_submit_frame)
  show u: "rtl8125_send_packet h data len s =
        (let s2 = tx_wait h 10000 (tx_submit h data len s)
         in if bit (status (tx_desc (mem s2) (tx_idx s))) 31 then (- 1, s2)
            else (0, s2\<lparr>tx_idx := (tx_idx s + 1) mod 4\<rparr>))"
  proof -
    from a have "\<not> 2048 < len" by (simp add: not_less)
    with a show ?thesis by (simp add: send_unfold)
  qed
  assume "fst (rtl8125_send_packet h data len s) = 0"
  then show "tx_idx (snd (rtl8125_send_packet h data len s)) = (tx_idx s + 1) mod 4"
    unfolding u by (simp add: Let_def split: if_splits)
qed

lemma tx_wait_first:
  "\<not> bit (status (tx_desc (mem (invalidate_dcache_va_range h (TxDesc (tx_idx s)) s)) (tx_idx s))) 31 \<Longrightarrow>
     tx_wait h (Suc n) s = invalidate_dcache_va_range h (TxDesc (tx_idx s)) s"
  by (simp add: Let_def invalidate_frame own_bit_test)

lemma nic_hw_tx_done:
  "\<not> bit (status (tx_desc (mem (invalidate_dcache_va_range (nic_hw st p) obj s)) i)) 31"
proof -
  have "\<not> bit (x AND 0x7FFFFFFF :: u32) 31" for x
  proof -
    have "(0x7FFFFFFF :: u32) = mask 31" by (simp add: mask_eq_exp_minus_1)
    then show ?thesis by (simp add: bit_and_iff bit_mask_iff)
  qed
  then show ?thesis by (simp add: invalidate_dcache_va_range_def nic_hw_def)
qed

theorem send_packet_spec_witness:
  "(3000 :: u32) > 2048 \<and>
   rtl8125_send_packet (nic_hw 0 (\<lambda>j. 0)) (\<lambda>j. 0xAA) 3000 nic0 = (- 1, nic0) \<and>
   tx_ring nic0 \<noteq> 0 \<and> tx_buffers nic0 (tx_idx nic0) \<noteq> 0 \<and> (42 :: u32) \<le> 2048 \<and>
   tx_buf (mem (tx_submit (nic_hw 0 (\<lambda>j. 0)) (\<lambda>j. 0xAA) 42 nic0)) (tx_idx nic0) =
     (\<lambda>j. if j < 42 then 0xAA else if j < 60 then 0 else tx_buf (mem nic0) (tx_idx nic0) j) \<and>
   status (tx_desc (mem (tx_submit (nic_hw 0 (\<lambda>j. 0)) (\<lambda>j. 0xAA) 42 nic0)) (tx_idx nic0)) = 0xB000003C \<and>
   fst (rtl8125_send_packet (nic_hw 0 (\<lambda>j. 0)) (\<lambda>j. 0xAA) 42 nic0) = 0 \<and>
   tx_idx (snd (rtl8125_send_packet (nic_hw 0 (\<lambda>j. 0)) (\<lambda>j. 0xAA) 42 nic0)) = (tx_idx nic0 + 1) mod 4"
proof -
  let ?H = "nic_hw 0 (\<lambda>j. 0)"
  let ?D = "\<lambda>j::nat. 0xAA :: u8"
  have g: "(3000 :: u32) > 2048" by simp
  have h: "tx_ring nic0 \<noteq> 0 \<and> tx_buffers nic0 (tx_idx nic0) \<noteq> 0 \<and> (42 :: u32) \<le> 2048"
    by (simp add: nic0_def)
  have t: "(10000 :: nat) = Suc 9999" by simp
  have w: "tx_wait ?H 10000 (tx_submit ?H ?D 42 nic0) =
      invalidate_dcache_va_range ?H (TxDesc (tx_idx (tx_submit ?H ?D 42 nic0))) (tx_submit ?H ?D 42 nic0)"
    unfolding t by (rule tx_wait_first) (rule nic_hw_tx_done)
  have f: "fst (rtl8125_send_packet ?H ?D 42 nic0) = 0"
    using h by (simp add: send_unfold Let_def w nic_hw_tx_done)
  from send_packet_spec[of 3000 ?H ?D nic0] g
  have a: "rtl8125_send_packet ?H ?D 3000 nic0 = (- 1, nic0)" by blast
  from send_packet_spec[of 42 ?H ?D nic0] h f
  have b: "tx_buf (mem (tx_submit ?H ?D 42 nic0)) (tx_idx nic0) =
        (\<lambda>j. if j < unat (42 :: u32) then ?D j else if j < 60 then 0 else tx_buf (mem nic0) (tx_idx nic0) j)"
    and c: "status (tx_desc (mem (tx_submit ?H ?D 42 nic0)) (tx_idx nic0)) =
        0xB0000000 OR (if (42 :: u32) < 60 then 60 else 42)"
    and d: "tx_idx (snd (rtl8125_send_packet ?H ?D 42 nic0)) = (tx_idx nic0 + 1) mod 4"
    by blast+
  from b have b': "tx_buf (mem (tx_submit ?H ?D 42 nic0)) (tx_idx nic0) =
     (\<lambda>j. if j < 42 then 0xAA else if j < 60 then 0 else tx_buf (mem nic0) (tx_idx nic0) j)"
    by simp
  from c have c': "status (tx_desc (mem (tx_submit ?H ?D 42 nic0)) (tx_idx nic0)) = 0xB000003C"
    by simp
  from g a h b' c' f d show ?thesis by blast
qed

end
